theory Spec2Isabelle
  imports Main "HOL-Library.AList" "HOL-Library.Char_ord" "HOL-Library.List_Lexorder"
    "HOL-Library.Product_Lexorder"
begin

section \<open>Python values, strings and dictionaries\<close>

text \<open>
  The rows handled by the quality module are Python dictionaries \<open>Dict[str, Any]\<close>
  as produced by a dictionary cursor. A value is \<open>None\<close>, an integer or a string;
  a string is a list of characters (code points below 256). A dictionary is an
  association list in insertion order whose keys are pairwise distinct.
\<close>

datatype val = VNone | VInt int | VStr string

type_synonym row = "(string \<times> val) list"

text \<open>
  What can be raised. \<open>RuntimeError\<close>, \<open>ValueError\<close> and the errors of the
  driver are instances of \<open>Exception\<close>; \<open>NonException\<close> stands for the rest of
  \<open>BaseException\<close> (\<open>KeyboardInterrupt\<close>, \<open>SystemExit\<close>), which a handler
  \<open>except Exception\<close> does not catch.
\<close>

datatype exn =
    RuntimeError string
  | ValueError string
  | DriverError string
  | NonException string

fun is_exception :: "exn \<Rightarrow> bool" where
  "is_exception (NonException m) = False"
| "is_exception e = True"

text \<open>Truthiness of a value, as used by \<open>x or y\<close> and \<open>if x\<close>.\<close>

fun truthy :: "val \<Rightarrow> bool" where
  "truthy VNone = False"
| "truthy (VInt n) = (n \<noteq> 0)"
| "truthy (VStr s) = (s \<noteq> [])"

definition py_or :: "val \<Rightarrow> val \<Rightarrow> val" where
  "py_or a b = (if truthy a then a else b)"

text \<open>\<open>str(x)\<close>: decimal digits for an integer, the text itself for a string.\<close>

definition digit_char :: "nat \<Rightarrow> char" where
  "digit_char d = ''0123456789'' ! d"

fun digits_of :: "nat \<Rightarrow> string" where
  "digits_of n = (if n < 10 then [digit_char n] else digits_of (n div 10) @ [digit_char (n mod 10)])"

declare digits_of.simps [simp del]

fun py_str :: "val \<Rightarrow> string" where
  "py_str VNone = ''None''"
| "py_str (VInt n) = (if n < 0 then CHR ''-'' # digits_of (nat (- n)) else digits_of (nat n))"
| "py_str (VStr s) = s"

text \<open>
  \<open>str.upper()\<close> on the ASCII letters; every other character is left as it is
  (type codes, item codes and the sentinels compared against are ASCII).
\<close>

definition upper_char :: "char \<Rightarrow> char" where
  "upper_char c =
     (case map_of (zip ''abcdefghijklmnopqrstuvwxyz'' ''ABCDEFGHIJKLMNOPQRSTUVWXYZ'') c of
        None \<Rightarrow> c | Some u \<Rightarrow> u)"

definition upper :: "string \<Rightarrow> string" where
  "upper s = map upper_char s"

text \<open>\<open>str.strip()\<close>: removes leading and trailing white space.\<close>

definition isspace :: "char \<Rightarrow> bool" where
  "isspace c = ((of_char c :: nat) \<in> {9, 10, 11, 12, 13, 28, 29, 30, 31, 32, 133, 160})"

definition strip :: "string \<Rightarrow> string" where
  "strip s = rev (dropWhile isspace (rev (dropWhile isspace s)))"

definition startswith :: "string \<Rightarrow> string \<Rightarrow> bool" where
  "startswith s p = (take (length p) s = p)"

text \<open>\<open>d.get(k)\<close>: the value stored under \<open>k\<close>, or \<open>None\<close>.\<close>

definition dict_get :: "row \<Rightarrow> string \<Rightarrow> val" where
  "dict_get d k = (case map_of d k of None \<Rightarrow> VNone | Some v \<Rightarrow> v)"

section \<open>QualityService: projection of raw rows\<close>

definition DEFAULT_TIPI_DOC :: "string list" where
  "DEFAULT_TIPI_DOC = [''OC'', ''ON'', ''BA'', ''CB'', ''BC'', ''BO'']"

text \<open>
  \<open>_extract_header\<close> and \<open>_extract_row\<close>: the loop over \<open>row.items()\<close> stores
  \<open>out[key[2:]] = value\<close> for every key with the prefix.
\<close>

definition extract_step :: "string \<Rightarrow> string \<times> val \<Rightarrow> row \<Rightarrow> row" where
  "extract_step pfx kv out =
     (if startswith (fst kv) pfx then AList.update (drop 2 (fst kv)) (snd kv) out else out)"

definition extract_header :: "row \<Rightarrow> row" where
  "extract_header r = fold (extract_step ''d_'') r []"

definition extract_row :: "row \<Rightarrow> row" where
  "extract_row r = fold (extract_step ''r_'') r []"

text \<open>The resolved type code \<open>str(header.get("tipodoc") or "").upper()\<close>.\<close>

definition resolved_tip :: "row \<Rightarrow> string" where
  "resolved_tip header = upper (py_str (py_or (dict_get header ''tipodoc'') (VStr [])))"

definition tip_rejected :: "string \<Rightarrow> bool" where
  "tip_rejected tip = (tip \<noteq> [] \<and> tip \<notin> set DEFAULT_TIPI_DOC)"

text \<open>The body of the loop of \<open>search_schede_lavoro\<close>, with \<open>out\<close> as accumulator.\<close>

fun schede_loop :: "row list \<Rightarrow> row list \<Rightarrow> row list" where
  "schede_loop [] out = out"
| "schede_loop (r # raw_rows) out =
     (let header = extract_header r; tip = resolved_tip header
      in if tip_rejected tip then schede_loop raw_rows out
         else schede_loop raw_rows (out @ [header]))"

definition make_item :: "row \<Rightarrow> row \<Rightarrow> row" where
  "make_item header r =
     [(''tipodoc'', dict_get header ''tipodoc''),
      (''esanno'', dict_get header ''esanno''),
      (''numerodoc'', dict_get header ''numerodoc''),
      (''datadoc'', dict_get header ''datadoc''),
      (''codicecf'', dict_get header ''codicecf''),
      (''cliente_nome'', dict_get header ''cliente_nome''),
      (''numeroriga'', dict_get r ''numeroriga''),
      (''codicearti'', dict_get r ''codicearti''),
      (''descrizione_articolo'', dict_get r ''descrizione_articolo''),
      (''descrizione_riga'', dict_get r ''descrizione_riga''),
      (''unmisura'', dict_get r ''unmisura''),
      (''quantita'', dict_get r ''quantita''),
      (''quantitare'', dict_get r ''quantitare''),
      (''pass'', dict_get r ''pass''),
      (''fascia'', dict_get r ''fascia''),
      (''componenti'', dict_get r ''componenti'')]"

fun articoli_loop :: "row list \<Rightarrow> row list \<Rightarrow> row list" where
  "articoli_loop [] out = out"
| "articoli_loop (rw # raw_rows) out =
     (let header = extract_header rw; tip = resolved_tip header
      in if tip_rejected tip then articoli_loop raw_rows out
         else articoli_loop raw_rows (out @ [make_item header (extract_row rw)]))"

text \<open>
  The repository object held by the service. Each method takes its keyword
  arguments and the state of the outside world, and returns the rows or the
  exception raised, with the new state.
\<close>

record 's quality_repo =
  repo_search_schede_lavoro ::
    "string option \<Rightarrow> string option \<Rightarrow> int option \<Rightarrow> string option \<Rightarrow> string option
       \<Rightarrow> string option \<Rightarrow> int \<Rightarrow> int \<Rightarrow> 's \<Rightarrow> (exn + row list) \<times> 's"
  repo_search_articoli_per_cliente ::
    "string option \<Rightarrow> int option \<Rightarrow> string option \<Rightarrow> string option
       \<Rightarrow> string option \<Rightarrow> int \<Rightarrow> int \<Rightarrow> 's \<Rightarrow> (exn + row list) \<times> 's"
  repo_get_scheda_lavoro ::
    "string option \<Rightarrow> int \<Rightarrow> string option \<Rightarrow> 's \<Rightarrow> (exn + row list) \<times> 's"

definition QualityService_search_schede_lavoro ::
  "'s quality_repo \<Rightarrow> string option \<Rightarrow> string option \<Rightarrow> int option \<Rightarrow> string option
     \<Rightarrow> string option \<Rightarrow> string option \<Rightarrow> int \<Rightarrow> int \<Rightarrow> 's \<Rightarrow> (exn + row list) \<times> 's" where
  "QualityService_search_schede_lavoro repo tipodoc numerodoc year codicecf fornitore_search
       articolo_search limit offset s =
     (case repo_search_schede_lavoro repo tipodoc numerodoc year codicecf fornitore_search
             articolo_search limit offset s of
        (Inl e, s') \<Rightarrow> (Inl e, s')
      | (Inr raw_rows, s') \<Rightarrow> (Inr (schede_loop raw_rows []), s'))"

definition QualityService_search_articoli_per_cliente ::
  "'s quality_repo \<Rightarrow> string option \<Rightarrow> int option \<Rightarrow> string option \<Rightarrow> string option
     \<Rightarrow> string option \<Rightarrow> int \<Rightarrow> int \<Rightarrow> 's \<Rightarrow> (exn + row list) \<times> 's" where
  "QualityService_search_articoli_per_cliente repo tipodoc year codicecf cliente_search
       articolo_search limit offset s =
     (case repo_search_articoli_per_cliente repo tipodoc year codicecf cliente_search
             articolo_search limit offset s of
        (Inl e, s') \<Rightarrow> (Inl e, s')
      | (Inr raw_rows, s') \<Rightarrow> (Inr (articoli_loop raw_rows []), s'))"

text \<open>
  \<open>list_schede_lavoro\<close>, the wrapper kept for the older routers; \<open>tipi_doc\<close> is
  accepted and not used.
\<close>

definition QualityService_list_schede_lavoro ::
  "'s quality_repo \<Rightarrow> int option \<Rightarrow> string option \<Rightarrow> string option \<Rightarrow> string option
     \<Rightarrow> string list option \<Rightarrow> int \<Rightarrow> int \<Rightarrow> 's \<Rightarrow> (exn + row list) \<times> 's" where
  "QualityService_list_schede_lavoro repo year codicecf cliente_search text_search tipi_doc limit offset s =
     (let fornitore_search = cliente_search; articolo_search = text_search
      in QualityService_search_schede_lavoro repo None None year codicecf fornitore_search
           articolo_search limit offset s)"

record scheda =
  header :: "row option"
  righe :: "row list"

definition QualityService_get_scheda_lavoro ::
  "'s quality_repo \<Rightarrow> string option \<Rightarrow> int \<Rightarrow> string option \<Rightarrow> 's \<Rightarrow> (exn + scheda) \<times> 's" where
  "QualityService_get_scheda_lavoro repo tipodoc esanno numerodoc s =
     (case repo_get_scheda_lavoro repo tipodoc esanno numerodoc s of
        (Inl e, s') \<Rightarrow> (Inl e, s')
      | (Inr rows, s') \<Rightarrow>
          (case rows of
             [] \<Rightarrow> (Inr \<lparr>header = None, righe = []\<rparr>, s')
           | r0 # _ \<Rightarrow> (Inr \<lparr>header = Some (extract_header r0), righe = map extract_row rows\<rparr>, s')))"

section \<open>core/db.py: the connection wrapper\<close>

text \<open>
  The MySQL driver is outside the repository. It is modelled by the calls made to
  it, recorded in order in a log, and by a \<open>driver\<close> that decides from the log so
  far how a call ends. A connection is a handle. Establishing a connection,
  creating a cursor, executing a statement, fetching, committing, rolling back
  and closing the cursor may each raise, whatever the class of the exception;
  \<open>connection.close()\<close> completes.
\<close>

datatype query_type = SELECT | GET | INSERT | UPDATE | DELETE | SCRIPT

type_synonym conn = nat

record connect_args =
  host :: string
  port :: int
  user :: string
  password :: string
  database :: string

datatype event =
    EvConnect connect_args
  | EvCursor conn
  | EvExecute conn string "val list option" bool
  | EvFetchall conn
  | EvCommit conn
  | EvRollback conn
  | EvCursorClose conn
  | EvConnClose conn

record driver =
  drv_connect :: "event list \<Rightarrow> connect_args \<Rightarrow> exn + conn"
  drv_is_connected :: "event list \<Rightarrow> conn \<Rightarrow> bool"
  drv_execute :: "event list \<Rightarrow> conn \<Rightarrow> string \<Rightarrow> val list option \<Rightarrow> bool \<Rightarrow> exn option"
  drv_fetchall :: "event list \<Rightarrow> conn \<Rightarrow> exn + row list"
  drv_commit :: "event list \<Rightarrow> conn \<Rightarrow> exn option"
  drv_cursor :: "event list \<Rightarrow> conn \<Rightarrow> exn option"
  drv_rollback :: "event list \<Rightarrow> conn \<Rightarrow> exn option"
  drv_cursor_close :: "event list \<Rightarrow> conn \<Rightarrow> exn option"

record settings =
  API_MYSQL_HOSTNAME :: string
  API_MYSQL_PORT :: int
  API_MYSQL_USERNAME :: string
  API_MYSQL_PASSWORD :: string
  API_MYSQL_DB :: string
  QUALITY_MYSQL_DB :: string
  QUALITY_MYSQL_HOSTNAME :: "string option"
  QUALITY_MYSQL_PORT :: "int option"
  QUALITY_MYSQL_USERNAME :: "string option"
  QUALITY_MYSQL_PASSWORD :: "string option"

text \<open>The fields of a \<open>MySQLDb\<close> object.\<close>

record mysqldb =
  db_name :: "string option"
  conn :: "conn option"

type_synonym dbstate = "mysqldb \<times> event list"

text \<open>\<open>x or y\<close> for an optional string and an optional port.\<close>

definition str_or :: "string option \<Rightarrow> string \<Rightarrow> string" where
  "str_or a b = (case a of None \<Rightarrow> b | Some s \<Rightarrow> if s = [] then b else s)"

definition int_or :: "int option \<Rightarrow> int \<Rightarrow> int" where
  "int_or a b = (case a of None \<Rightarrow> b | Some n \<Rightarrow> if n = 0 then b else n)"

definition connection_target :: "settings \<Rightarrow> string option \<Rightarrow> connect_args" where
  "connection_target cfg name =
     (case name of
        None \<Rightarrow>
          \<lparr>host = API_MYSQL_HOSTNAME cfg, port = API_MYSQL_PORT cfg,
           user = API_MYSQL_USERNAME cfg, password = API_MYSQL_PASSWORD cfg,
           database = API_MYSQL_DB cfg\<rparr>
      | Some n \<Rightarrow>
          if n = QUALITY_MYSQL_DB cfg then
            \<lparr>host = str_or (QUALITY_MYSQL_HOSTNAME cfg) (API_MYSQL_HOSTNAME cfg),
             port = int_or (QUALITY_MYSQL_PORT cfg) (API_MYSQL_PORT cfg),
             user = str_or (QUALITY_MYSQL_USERNAME cfg) (API_MYSQL_USERNAME cfg),
             password = str_or (QUALITY_MYSQL_PASSWORD cfg) (API_MYSQL_PASSWORD cfg),
             database = QUALITY_MYSQL_DB cfg\<rparr>
          else
            \<lparr>host = API_MYSQL_HOSTNAME cfg, port = API_MYSQL_PORT cfg,
             user = API_MYSQL_USERNAME cfg, password = API_MYSQL_PASSWORD cfg,
             database = n\<rparr>)"

text \<open>\<open>self._conn is not None and self._conn.is_connected()\<close>\<close>

definition is_live :: "driver \<Rightarrow> dbstate \<Rightarrow> bool" where
  "is_live drv st = (case conn (fst st) of None \<Rightarrow> False | Some c \<Rightarrow> drv_is_connected drv (snd st) c)"

definition connect :: "driver \<Rightarrow> settings \<Rightarrow> dbstate \<Rightarrow> (exn + unit) \<times> dbstate" where
  "connect drv cfg st =
     (if is_live drv st then (Inr (), st)
      else
        let args = connection_target cfg (db_name (fst st));
            log' = snd st @ [EvConnect args]
        in case drv_connect drv (snd st) args of
             Inl e \<Rightarrow> (Inl e, (fst st, log'))
           | Inr c \<Rightarrow> (Inr (), ((fst st)\<lparr>conn := Some c\<rparr>, log')))"

definition close :: "driver \<Rightarrow> dbstate \<Rightarrow> dbstate" where
  "close drv st =
     (case conn (fst st) of
        None \<Rightarrow> ((fst st)\<lparr>conn := None\<rparr>, snd st)
      | Some c \<Rightarrow>
          if drv_is_connected drv (snd st) c
          then ((fst st)\<lparr>conn := None\<rparr>, snd st @ [EvConnClose c])
          else ((fst st)\<lparr>conn := None\<rparr>, snd st))"

definition not_connected_msg :: string where
  "not_connected_msg =
     ''Connessione MySQL non inizializzata. Chiama connect() prima di usare execute().''"

text \<open>\<open>params or None\<close>\<close>

definition params_or_none :: "val list option \<Rightarrow> val list option" where
  "params_or_none params = (case params of None \<Rightarrow> None | Some ps \<Rightarrow> if ps = [] then None else Some ps)"

text \<open>
  The driver calls of \<open>execute\<close>, each recorded in the log whether it raises
  or not.
\<close>

definition conn_cursor :: "driver \<Rightarrow> conn \<Rightarrow> event list \<Rightarrow> (exn + unit) \<times> event list" where
  "conn_cursor drv c log =
     ((case drv_cursor drv log c of Some e \<Rightarrow> Inl e | None \<Rightarrow> Inr ()), log @ [EvCursor c])"

definition conn_rollback :: "driver \<Rightarrow> conn \<Rightarrow> event list \<Rightarrow> (exn + unit) \<times> event list" where
  "conn_rollback drv c log =
     ((case drv_rollback drv log c of Some e \<Rightarrow> Inl e | None \<Rightarrow> Inr ()), log @ [EvRollback c])"

definition cursor_close :: "driver \<Rightarrow> conn \<Rightarrow> event list \<Rightarrow> (exn + unit) \<times> event list" where
  "cursor_close drv c log =
     ((case drv_cursor_close drv log c of Some e \<Rightarrow> Inl e | None \<Rightarrow> Inr ()),
      log @ [EvCursorClose c])"

definition cursor_execute ::
  "driver \<Rightarrow> conn \<Rightarrow> string \<Rightarrow> val list option \<Rightarrow> bool \<Rightarrow> event list \<Rightarrow> (exn + unit) \<times> event list" where
  "cursor_execute drv c sql ps multi log =
     ((case drv_execute drv log c sql ps multi of Some e \<Rightarrow> Inl e | None \<Rightarrow> Inr ()),
      log @ [EvExecute c sql ps multi])"

definition cursor_fetchall :: "driver \<Rightarrow> conn \<Rightarrow> event list \<Rightarrow> (exn + row list) \<times> event list" where
  "cursor_fetchall drv c log = (drv_fetchall drv log c, log @ [EvFetchall c])"

definition conn_commit :: "driver \<Rightarrow> conn \<Rightarrow> event list \<Rightarrow> (exn + unit) \<times> event list" where
  "conn_commit drv c log =
     ((case drv_commit drv log c of Some e \<Rightarrow> Inl e | None \<Rightarrow> Inr ()), log @ [EvCommit c])"

text \<open>The body of the \<open>try\<close> block of \<open>execute\<close>.\<close>

definition execute_try ::
  "driver \<Rightarrow> conn \<Rightarrow> query_type \<Rightarrow> string \<Rightarrow> val list option \<Rightarrow> event list
     \<Rightarrow> (exn + row list) \<times> event list" where
  "execute_try drv c qt sql params log =
     (if qt = SCRIPT then
        (case cursor_execute drv c sql (params_or_none params) True log of
           (Inl e, log1) \<Rightarrow> (Inl e, log1)
         | (Inr _, log1) \<Rightarrow>
             (case conn_commit drv c log1 of
                (Inl e, log2) \<Rightarrow> (Inl e, log2)
              | (Inr _, log2) \<Rightarrow> (Inr [], log2)))
      else
        (case cursor_execute drv c sql (params_or_none params) False log of
           (Inl e, log1) \<Rightarrow> (Inl e, log1)
         | (Inr _, log1) \<Rightarrow>
             if qt = SELECT \<or> qt = GET then
               (case cursor_fetchall drv c log1 of
                  (Inl e, log2) \<Rightarrow> (Inl e, log2)
                | (Inr rows, log2) \<Rightarrow> (Inr rows, log2))
             else
               (case conn_commit drv c log1 of
                  (Inl e, log2) \<Rightarrow> (Inl e, log2)
                | (Inr _, log2) \<Rightarrow> (Inr [], log2))))"

text \<open>
  The handler \<open>except Exception: self._conn.rollback(); raise\<close>, entered with
  the exception \<open>e\<close> of the \<open>try\<close> block: it yields the exception that is on
  its way out of the handler. An exception outside \<open>Exception\<close> passes by the
  handler; when \<open>rollback()\<close> raises, its exception takes the place of \<open>e\<close>.
\<close>

definition execute_except :: "driver \<Rightarrow> conn \<Rightarrow> exn \<Rightarrow> event list \<Rightarrow> exn \<times> event list" where
  "execute_except drv c e log =
     (if is_exception e then
        (case conn_rollback drv c log of
           (Inl e2, log') \<Rightarrow> (e2, log')
         | (Inr _, log') \<Rightarrow> (e, log'))
      else (e, log))"

text \<open>
  \<open>finally: cursor.close()\<close>, entered with the outcome so far: when \<open>close()\<close>
  raises, its exception takes the place of that outcome.
\<close>

definition execute_finally ::
  "driver \<Rightarrow> conn \<Rightarrow> exn + row list \<Rightarrow> event list \<Rightarrow> (exn + row list) \<times> event list" where
  "execute_finally drv c outcome log =
     (case cursor_close drv c log of
        (Inl e3, log') \<Rightarrow> (Inl e3, log')
      | (Inr _, log') \<Rightarrow> (outcome, log'))"

text \<open>
  \<open>execute\<close>: the liveness check, the cursor (created before the \<open>try\<close>
  statement, so that its failure is handled by nothing), the \<open>try\<close> block, the
  handler and the \<open>finally\<close> clause.
\<close>

definition execute ::
  "driver \<Rightarrow> query_type \<Rightarrow> string \<Rightarrow> val list option \<Rightarrow> dbstate \<Rightarrow> (exn + row list) \<times> dbstate" where
  "execute drv qt sql params st =
     (case conn (fst st) of
        None \<Rightarrow> (Inl (RuntimeError not_connected_msg), st)
      | Some c \<Rightarrow>
          if \<not> drv_is_connected drv (snd st) c then (Inl (RuntimeError not_connected_msg), st)
          else
            (case conn_cursor drv c (snd st) of
               (Inl e, log0) \<Rightarrow> (Inl e, (fst st, log0))
             | (Inr _, log0) \<Rightarrow>
                 (case execute_try drv c qt sql params log0 of
                    (Inl e, log1) \<Rightarrow>
                      (case execute_except drv c e log1 of
                         (pending, log2) \<Rightarrow>
                           (case execute_finally drv c (Inl pending) log2 of
                              (res, log3) \<Rightarrow> (res, (fst st, log3))))
                  | (Inr rows, log1) \<Rightarrow>
                      (case execute_finally drv c (Inr rows) log1 of
                         (res, log3) \<Rightarrow> (res, (fst st, log3))))))"

definition execute_query ::
  "driver \<Rightarrow> string \<Rightarrow> val list option \<Rightarrow> bool \<Rightarrow> query_type \<Rightarrow> dbstate \<Rightarrow> (exn + row list) \<times> dbstate" where
  "execute_query drv query params fetchall qt st =
     (if qt = SELECT \<or> qt = GET then
        (case execute drv qt query params st of
           (Inl e, st') \<Rightarrow> (Inl e, st')
         | (Inr rows, st') \<Rightarrow>
             (case rows of
                [] \<Rightarrow> (Inr rows, st')
              | r0 # _ \<Rightarrow> if \<not> fetchall then (Inr [r0], st') else (Inr rows, st')))
      else
        (case execute drv qt query params st of
           (Inl e, st') \<Rightarrow> (Inl e, st')
         | (Inr _, st') \<Rightarrow> (Inr [], st')))"

text \<open>
  \<open>DbManager\<close>: \<open>with DbManager(db) as db: body\<close>. When \<open>__enter__\<close> raises the
  body does not run; otherwise \<open>__exit__\<close> runs after the body, whatever its
  outcome, and returns \<open>None\<close>, so that an exception of the body propagates.
\<close>

definition dbmanager_enter :: "driver \<Rightarrow> settings \<Rightarrow> dbstate \<Rightarrow> (exn + unit) \<times> dbstate" where
  "dbmanager_enter drv cfg st = connect drv cfg st"

definition dbmanager_exit :: "driver \<Rightarrow> dbstate \<Rightarrow> dbstate" where
  "dbmanager_exit drv st = close drv st"

definition with_dbmanager ::
  "driver \<Rightarrow> settings \<Rightarrow> (dbstate \<Rightarrow> (exn + 'a) \<times> dbstate) \<Rightarrow> dbstate \<Rightarrow> (exn + 'a) \<times> dbstate" where
  "with_dbmanager drv cfg body st =
     (case dbmanager_enter drv cfg st of
        (Inl e, st1) \<Rightarrow> (Inl e, st1)
      | (Inr _, st1) \<Rightarrow> (case body st1 of (res, st2) \<Rightarrow> (res, dbmanager_exit drv st2)))"

section \<open>quality/sql/quality_queries.py: the query templates\<close>

text \<open>
  A template is kept line by line. A line is a sequence of pieces: \<open>T s\<close> is the
  text \<open>s\<close> as written in the source and \<open>P x\<close> stands for one placeholder
  \<open>%s\<close>, tagged with the filter whose predicate it occurs in. The SQL text
  handed to the driver is the rendering of the template.
\<close>

datatype slot =
    Tipodoc_filter | Numerodoc_filter | Esanno_filter | Codicecf_filter
  | Fornitore_search | Articolo_search | Limit | Offset

datatype piece = T string | P slot

fun render_piece :: "piece \<Rightarrow> string" where
  "render_piece (T s) = s"
| "render_piece (P x) = ''%s''"

text \<open>\<open>sep.join(xs)\<close>\<close>

fun join :: "string \<Rightarrow> string list \<Rightarrow> string" where
  "join sep [] = []"
| "join sep [x] = x"
| "join sep (x # y # ys) = x @ sep @ join sep (y # ys)"

definition render :: "piece list list \<Rightarrow> string" where
  "render ls = join [CHR 0x0A] (map (\<lambda>l. concat (map render_piece l)) ls)"

fun slot_of :: "piece \<Rightarrow> slot list" where
  "slot_of (T s) = []"
| "slot_of (P x) = [x]"

definition slots :: "piece list list \<Rightarrow> slot list" where
  "slots ls = concat (map (\<lambda>l. concat (map slot_of l)) ls)"

text \<open>
  The placeholders of an SQL text as the driver finds them: the occurrences of
  \<open>%s\<close>, scanned from left to right.
\<close>

fun placeholders :: "string \<Rightarrow> nat" where
  "placeholders (c # d # rest) =
     (if c = CHR ''%'' \<and> d = CHR ''s'' then Suc (placeholders rest) else placeholders (d # rest))"
| "placeholders [c] = 0"
| "placeholders [] = 0"

definition TIPI_DOC_LAVORO :: "string list" where
  "TIPI_DOC_LAVORO = [''OC'', ''ON'', ''BA'', ''CB'', ''BC'', ''BO'']"

definition tipi_doc :: string where
  "tipi_doc = join '', '' (map (\<lambda>t. [CHR 0x27] @ t @ [CHR 0x27]) TIPI_DOC_LAVORO)"

definition search_schede_lavoro_template :: "piece list list" where
  "search_schede_lavoro_template =
    [[T []],
     [T ''        SELECT''],
     [T ''            d.tipodoc                               AS d_tipodoc,''],
     [T ''            d.esanno                                AS d_esanno,''],
     [T ''            d.numerodoc                             AS d_numerodoc,''],
     [T ''            d.datadoc                               AS d_datadoc,''],
     [T ''            d.codicecf                              AS d_codicecf,''],
     [T ''            COALESCE(a.SUPRAGSOC, a.DESCRIZION)     AS d_cliente_nome,''],
     [T ''            a.PARTIVA                               AS d_piva,''],
     [T ''            a.CODFISCALE                            AS d_cfisc,''],
     [T ''            d.ddragsoc                              AS d_ddragsoc,''],
     [T ''            d.ddindir                               AS d_ddindir,''],
     [T ''            d.ddcap                                 AS d_ddcap,''],
     [T ''            d.ddlocal                               AS d_ddlocal,''],
     [T ''            d.totdoc                                AS d_totdoc,''],
     [T ''            d.totimp                                AS d_totimp,''],
     [T ''            d.totmerce                              AS d_totmerce,''],
     [T ''            d.totiva                                AS d_totiva,''],
     [T ''            d.oggetto                               AS d_oggetto,''],
     [T ''            d.note                                  AS d_note_testa,''],
     [T ''            d.username                              AS d_username,''],
     [T ''            d.timestamp_row                         AS d_timestamp_row''],
     [T ''        FROM doctes d''],
     [T ''        LEFT JOIN anagrafe a''],
     [T ''               ON a.CODICE = d.codicecf''],
     [T ''        WHERE''],
     [T ''            -- includiamo solo i tipi documento di interesse''],
     [T ''            d.tipodoc IN ('', T tipi_doc, T '')''],
     [T []],
     [T ''            -- filtro per tipo doc opzionale (OC/ON/BA/CB/BC/BO)''],
     [T ''            AND ('', P Tipodoc_filter, T '' IS NULL OR d.tipodoc = '', P Tipodoc_filter, T '')''],
     [T []],
     [T ''            -- filtro per NUMERO DOCUMENTO (parziale)''],
     [T ''            AND ('', P Numerodoc_filter, T '' IS NULL OR d.numerodoc LIKE CONCAT('%%', '', P Numerodoc_filter, T '', '%%'))''],
     [T []],
     [T ''            -- filtro per ANNO / ESERCIZIO''],
     [T ''            AND ('', P Esanno_filter, T '' IS NULL OR d.esanno = '', P Esanno_filter, T '')''],
     [T []],
     [T ''            -- filtro per CODICE CLIENTE / FORNITORE''],
     [T ''            AND ('', P Codicecf_filter, T '' IS NULL OR d.codicecf = '', P Codicecf_filter, T '')''],
     [T []],
     [T ''            -- filtro per RAGIONE SOCIALE (anagrafe)''],
     [T ''            AND (''],
     [T ''                '', P Fornitore_search, T '' IS NULL''],
     [T ''                OR a.DESCRIZION LIKE CONCAT('%%', '', P Fornitore_search, T '', '%%')''],
     [T ''                OR a.SUPRAGSOC  LIKE CONCAT('%%', '', P Fornitore_search, T '', '%%')''],
     [T ''            )''],
     [T []],
     [T ''            -- filtro per ARTICOLO / TESTO RIGA DOCUMENTO''],
     [T ''            AND (''],
     [T ''                '', P Articolo_search, T '' IS NULL''],
     [T ''                OR EXISTS (''],
     [T ''                    SELECT 1''],
     [T ''                    FROM docrig r2''],
     [T ''                    LEFT JOIN magart ma2''],
     [T ''                           ON ma2.CODICE = r2.codicearti''],
     [T ''                    LEFT JOIN u_scimp us2''],
     [T ''                           ON us2.id_rigadoc = r2.id''],
     [T ''                    WHERE r2.tipodoc   = d.tipodoc''],
     [T ''                      AND r2.esanno    = d.esanno''],
     [T ''                      AND r2.numerodoc = d.numerodoc''],
     [T ''                      AND (''],
     [T ''                          r2.codicearti LIKE CONCAT('%%', '', P Articolo_search, T '', '%%')''],
     [T ''                          OR r2.descrizion LIKE CONCAT('%%', '', P Articolo_search, T '', '%%')''],
     [T ''                          OR ma2.DESCRIZION LIKE CONCAT('%%', '', P Articolo_search, T '', '%%')''],
     [T ''                          OR us2.passo  LIKE CONCAT('%%', '', P Articolo_search, T '', '%%')''],
     [T ''                          OR us2.fascia LIKE CONCAT('%%', '', P Articolo_search, T '', '%%')''],
     [T ''                      )''],
     [T ''                )''],
     [T ''            )''],
     [T []],
     [T ''        ORDER BY d.datadoc DESC, d.numerodoc DESC''],
     [T ''        LIMIT '', P Limit, T '' OFFSET '', P Offset],
     [T ''        '']]"

definition search_articoli_per_cliente_template :: "piece list list" where
  "search_articoli_per_cliente_template =
    [[T []],
     [T ''        SELECT''],
     [T ''            -- campi di testata minimi (prefisso d_)''],
     [T ''            d.tipodoc                           AS d_tipodoc,''],
     [T ''            d.esanno                            AS d_esanno,''],
     [T ''            d.numerodoc                         AS d_numerodoc,''],
     [T ''            d.datadoc                           AS d_datadoc,''],
     [T ''            d.codicecf                          AS d_codicecf,''],
     [T ''            COALESCE(a.SUPRAGSOC, a.DESCRIZION) AS d_cliente_nome,''],
     [T []],
     [T ''            -- campi di riga (prefisso r_)''],
     [T ''            r.numeroriga                        AS r_numeroriga,''],
     [T ''            r.codicearti                        AS r_codicearti,''],
     [T ''            ma.DESCRIZION                       AS r_descrizione_articolo,''],
     [T ''            r.descrizion                        AS r_descrizione_riga,''],
     [T ''            r.unmisura                          AS r_unmisura,''],
     [T ''            r.quantita                          AS r_quantita,''],
     [T ''            r.quantitare                        AS r_quantitare,''],
     [T ''            COALESCE(us.passo,  ma.U_PASSO)     AS r_pass,''],
     [T ''            COALESCE(us.fascia, ma.U_FASCIA)    AS r_fascia,''],
     [T ''            CONCAT_WS(' / ',''],
     [T (''                NULLIF(r.u_compon1, '' @ [CHR 0x27] @ [CHR 0x27] @ ''),'')],
     [T (''                NULLIF(r.u_compon2, '' @ [CHR 0x27] @ [CHR 0x27] @ ''),'')],
     [T (''                NULLIF(r.u_compon3, '' @ [CHR 0x27] @ [CHR 0x27] @ ''),'')],
     [T (''                NULLIF(r.u_compon4, '' @ [CHR 0x27] @ [CHR 0x27] @ '')'')],
     [T ''            )                                   AS r_componenti''],
     [T ''        FROM doctes d''],
     [T ''        JOIN docrig r''],
     [T ''          ON r.tipodoc   = d.tipodoc''],
     [T ''         AND r.esanno    = d.esanno''],
     [T ''         AND r.numerodoc = d.numerodoc''],
     [T ''        LEFT JOIN anagrafe a''],
     [T ''               ON a.CODICE = d.codicecf''],
     [T ''        LEFT JOIN magart ma''],
     [T ''               ON ma.CODICE = r.codicearti''],
     [T ''        LEFT JOIN u_scimp us''],
     [T ''               ON us.id_rigadoc = r.id''],
     [T ''        WHERE''],
     [T ''            d.tipodoc IN ('', T tipi_doc, T '')''],
     [T []],
     [T ''            -- filtro per tipo doc opzionale''],
     [T ''            AND ('', P Tipodoc_filter, T '' IS NULL OR d.tipodoc = '', P Tipodoc_filter, T '')''],
     [T []],
     [T ''            -- filtro per ANNO / ESERCIZIO''],
     [T ''            AND ('', P Esanno_filter, T '' IS NULL OR d.esanno = '', P Esanno_filter, T '')''],
     [T []],
     [T ''            -- filtro per CODICE CLIENTE / FORNITORE''],
     [T ''            AND ('', P Codicecf_filter, T '' IS NULL OR d.codicecf = '', P Codicecf_filter, T '')''],
     [T []],
     [T ''            -- filtro per RAGIONE SOCIALE (anagrafe)''],
     [T ''            AND (''],
     [T ''                '', P Fornitore_search, T '' IS NULL''],
     [T ''                OR a.DESCRIZION LIKE CONCAT('%%', '', P Fornitore_search, T '', '%%')''],
     [T ''                OR a.SUPRAGSOC  LIKE CONCAT('%%', '', P Fornitore_search, T '', '%%')''],
     [T ''            )''],
     [T []],
     [T ''            -- filtro per ARTICOLO / TESTO RIGA DOCUMENTO''],
     [T ''            AND (''],
     [T ''                '', P Articolo_search, T '' IS NULL''],
     [T ''                OR (''],
     [T ''                    r.codicearti LIKE CONCAT('%%', '', P Articolo_search, T '', '%%')''],
     [T ''                    OR r.descrizion LIKE CONCAT('%%', '', P Articolo_search, T '', '%%')''],
     [T ''                    OR ma.DESCRIZION LIKE CONCAT('%%', '', P Articolo_search, T '', '%%')''],
     [T ''                    OR us.passo  LIKE CONCAT('%%', '', P Articolo_search, T '', '%%')''],
     [T ''                    OR us.fascia LIKE CONCAT('%%', '', P Articolo_search, T '', '%%')''],
     [T ''                )''],
     [T ''            )''],
     [T []],
     [T ''            AND NOT (''],
     [T (''                UPPER(r.codicearti) LIKE 'CONAI%%'' @ [CHR 0x27])],
     [T (''                OR UPPER(r.codicearti) LIKE 'BANCALE%%'' @ [CHR 0x27])],
     [T (''                OR UPPER(r.descrizion) LIKE '%CONAI%'' @ [CHR 0x27])],
     [T (''                OR UPPER(r.descrizion) LIKE '%BANCALE%'' @ [CHR 0x27])],
     [T (''                OR UPPER(ma.DESCRIZION) LIKE '%CONAI%'' @ [CHR 0x27])],
     [T (''                OR UPPER(ma.DESCRIZION) LIKE '%BANCALE%'' @ [CHR 0x27])],
     [T ''            )''],
     [T []],
     [T ''            -- solo righe con codice articolo valorizzato''],
     [T ''            AND r.codicearti IS NOT NULL''],
     [T (''            AND r.codicearti <> '' @ [CHR 0x27] @ [CHR 0x27])],
     [T []],
     [T ''        ORDER BY d.datadoc DESC, d.numerodoc DESC, r.numeroriga ASC''],
     [T ''        LIMIT '', P Limit, T '' OFFSET '', P Offset],
     [T ''        '']]"

definition get_scheda_lavoro_template :: "piece list list" where
  "get_scheda_lavoro_template =
    [[T []],
     [T ''        SELECT''],
     [T ''            -- ============================''],
     [T ''            -- CAMPi TESTATA (prefisso d_)''],
     [T ''            -- ============================''],
     [T ''            d.tipodoc                           AS d_tipodoc,''],
     [T ''            d.esanno                            AS d_esanno,''],
     [T ''            d.numerodoc                         AS d_numerodoc,''],
     [T ''            d.datadoc                           AS d_datadoc,''],
     [T ''            d.codicecf                          AS d_codicecf,''],
     [T ''            COALESCE(a.SUPRAGSOC, a.DESCRIZION) AS d_cliente_nome,''],
     [T ''            a.PARTIVA                           AS d_piva,''],
     [T ''            a.CODFISCALE                        AS d_cfisc,''],
     [T ''            d.ddragsoc                          AS d_ddragsoc,''],
     [T ''            d.ddindir                           AS d_ddindir,''],
     [T ''            d.ddcap                             AS d_ddcap,''],
     [T ''            d.ddlocal                           AS d_ddlocal,''],
     [T ''            d.totdoc                            AS d_totdoc,''],
     [T ''            d.totimp                            AS d_totimp,''],
     [T ''            d.totmerce                          AS d_totmerce,''],
     [T ''            d.totiva                            AS d_totiva,''],
     [T ''            d.oggetto                           AS d_oggetto,''],
     [T ''            d.note                              AS d_note_testa,''],
     [T ''            d.username                          AS d_username,''],
     [T ''            d.timestamp_row                     AS d_timestamp_row,''],
     [T []],
     [T ''            -- ============================''],
     [T ''            -- CAMPi RIGA (prefisso r_)''],
     [T ''            -- ============================''],
     [T ''            r.numeroriga                        AS r_numeroriga,''],
     [T ''            r.codicearti                        AS r_codicearti,''],
     [T ''            ma.DESCRIZION                       AS r_descrizione_articolo,''],
     [T ''            r.descrizion                        AS r_descrizione_riga,''],
     [T ''            r.unmisura                          AS r_unmisura,''],
     [T ''            r.quantita                          AS r_quantita,''],
     [T ''            r.quantitare                        AS r_quantitare,''],
     [T ''            r.sconti                            AS r_sconti,''],
     [T ''            r.prezzoun                          AS r_prezzoun,''],
     [T ''            r.prezzotot                         AS r_prezzotot,''],
     [T ''            r.aliiva                            AS r_aliiva,''],
     [T ''            r.magpartenz                        AS r_magpartenz,''],
     [T ''            r.magarrivo                         AS r_magarrivo,''],
     [T ''            r.lotto                             AS r_lotto,''],
     [T ''            r.commessa                          AS r_commessa,''],
     [T ''            r.mezzo                             AS r_mezzo,''],
     [T ''            r.tipolav                           AS r_tipolav,''],
     [T ''            r.codcaumag                         AS r_codcaumag,''],
     [T ''            r.note                              AS r_note_riga,''],
     [T ''            r.username                          AS r_username,''],
     [T ''            r.timestamp_row                     AS r_timestamp_row,''],
     [T []],
     [T ''            -- ============================''],
     [T (''            -- CAMPi QUALIT'' @ [CHR 0xC0] @ '' (prefisso r_)'')],
     [T ''            -- ============================''],
     [T ''            COALESCE(us.passo,  ma.U_PASSO)     AS r_pass,''],
     [T ''            COALESCE(us.fascia, ma.U_FASCIA)    AS r_fascia,''],
     [T ''            CONCAT_WS(' / ',''],
     [T (''                NULLIF(r.u_compon1, '' @ [CHR 0x27] @ [CHR 0x27] @ ''),'')],
     [T (''                NULLIF(r.u_compon2, '' @ [CHR 0x27] @ [CHR 0x27] @ ''),'')],
     [T (''                NULLIF(r.u_compon3, '' @ [CHR 0x27] @ [CHR 0x27] @ ''),'')],
     [T (''                NULLIF(r.u_compon4, '' @ [CHR 0x27] @ [CHR 0x27] @ '')'')],
     [T ''            )                                   AS r_componenti''],
     [T ''        FROM doctes d''],
     [T ''        JOIN docrig r''],
     [T ''          ON r.tipodoc   = d.tipodoc''],
     [T ''         AND r.esanno    = d.esanno''],
     [T ''         AND r.numerodoc = d.numerodoc''],
     [T ''        LEFT JOIN anagrafe a''],
     [T ''               ON a.CODICE = d.codicecf''],
     [T ''        LEFT JOIN magart ma''],
     [T ''               ON ma.CODICE = r.codicearti''],
     [T ''        LEFT JOIN u_scimp us''],
     [T ''               ON us.id_rigadoc = r.id''],
     [T []],
     [T ''        WHERE d.tipodoc   = '', P Tipodoc_filter],
     [T ''          AND d.esanno    = '', P Esanno_filter],
     [T ''          AND d.numerodoc = '', P Numerodoc_filter],
     [T ''          AND r.codicearti IS NOT NULL''],
     [T (''          AND r.codicearti <> '' @ [CHR 0x27] @ [CHR 0x27])],
     [T []],
     [T ''        ORDER BY r.numeroriga ASC''],
     [T ''        '']]"


definition search_schede_lavoro_sql :: string where
  "search_schede_lavoro_sql = render search_schede_lavoro_template"

definition search_articoli_per_cliente_sql :: string where
  "search_articoli_per_cliente_sql = render search_articoli_per_cliente_template"

definition get_scheda_lavoro_sql :: string where
  "get_scheda_lavoro_sql = render get_scheda_lavoro_template"

section \<open>quality/repo/QualityRepository.py\<close>

text \<open>\<open>(x or "").strip() or None\<close> and \<open>(x or "").strip().upper() or None\<close>\<close>

definition or_empty :: "string option \<Rightarrow> string" where
  "or_empty x = (case x of None \<Rightarrow> [] | Some s \<Rightarrow> s)"

definition or_none :: "string \<Rightarrow> string option" where
  "or_none s = (if s = [] then None else Some s)"

definition norm_text :: "string option \<Rightarrow> string option" where
  "norm_text x = or_none (strip (or_empty x))"

definition norm_upper :: "string option \<Rightarrow> string option" where
  "norm_upper x = or_none (upper (strip (or_empty x)))"

definition str_param :: "string option \<Rightarrow> val" where
  "str_param x = (case x of None \<Rightarrow> VNone | Some s \<Rightarrow> VStr s)"

definition int_param :: "int option \<Rightarrow> val" where
  "int_param x = (case x of None \<Rightarrow> VNone | Some n \<Rightarrow> VInt n)"

definition search_schede_lavoro_params ::
  "string option \<Rightarrow> string option \<Rightarrow> int option \<Rightarrow> string option \<Rightarrow> string option
     \<Rightarrow> string option \<Rightarrow> int \<Rightarrow> int \<Rightarrow> val list" where
  "search_schede_lavoro_params tipodoc numerodoc year codicecf fornitore_search articolo_search
       limit offset =
     (let tipodoc_val = str_param (norm_upper tipodoc);
          numerodoc_val = str_param (norm_text numerodoc);
          year_val = int_param year;
          codicecf_val = str_param (norm_text codicecf);
          fornitore_val = str_param (norm_text fornitore_search);
          articolo_val = str_param (norm_text articolo_search)
      in [tipodoc_val, tipodoc_val,
          numerodoc_val, numerodoc_val,
          year_val, year_val,
          codicecf_val, codicecf_val,
          fornitore_val, fornitore_val, fornitore_val,
          articolo_val, articolo_val, articolo_val, articolo_val, articolo_val, articolo_val,
          VInt limit, VInt offset])"

definition search_articoli_per_cliente_params ::
  "string option \<Rightarrow> int option \<Rightarrow> string option \<Rightarrow> string option
     \<Rightarrow> string option \<Rightarrow> int \<Rightarrow> int \<Rightarrow> val list" where
  "search_articoli_per_cliente_params tipodoc year codicecf cliente_search articolo_search
       limit offset =
     (let tipodoc_val = str_param (norm_upper tipodoc);
          year_val = int_param year;
          codicecf_val = str_param (norm_text codicecf);
          cliente_val = str_param (norm_text cliente_search);
          articolo_val = str_param (norm_text articolo_search)
      in [tipodoc_val, tipodoc_val,
          year_val, year_val,
          codicecf_val, codicecf_val,
          cliente_val, cliente_val, cliente_val,
          articolo_val, articolo_val, articolo_val, articolo_val, articolo_val, articolo_val,
          VInt limit, VInt offset])"

text \<open>
  The state a repository call works on: the \<open>MySQLDb\<close> of the \<open>DbManager\<close> given
  to the constructor, if one was given, and the log of driver calls.
  \<open>with (self._db_manager or self._new_db_manager()) as db\<close> uses that manager,
  or a new one on a new \<open>MySQLDb(settings.QUALITY_MYSQL_DB)\<close>.
\<close>

type_synonym repostate = "mysqldb option \<times> event list"

definition repo_with_db ::
  "driver \<Rightarrow> settings \<Rightarrow> (dbstate \<Rightarrow> (exn + 'a) \<times> dbstate) \<Rightarrow> repostate \<Rightarrow> (exn + 'a) \<times> repostate" where
  "repo_with_db drv cfg body rs =
     (case fst rs of
        Some db \<Rightarrow>
          (case with_dbmanager drv cfg body (db, snd rs) of
             (res, st') \<Rightarrow> (res, (Some (fst st'), snd st')))
      | None \<Rightarrow>
          (case with_dbmanager drv cfg body
                  (\<lparr>db_name = Some (QUALITY_MYSQL_DB cfg), conn = None\<rparr>, snd rs) of
             (res, st') \<Rightarrow> (res, (None, snd st'))))"

text \<open>\<open>rows or []\<close>\<close>

definition rows_or_empty :: "row list \<Rightarrow> row list" where
  "rows_or_empty rows = (if rows = [] then [] else rows)"

definition run_select ::
  "driver \<Rightarrow> settings \<Rightarrow> string \<Rightarrow> val list \<Rightarrow> repostate \<Rightarrow> (exn + row list) \<times> repostate" where
  "run_select drv cfg sql params rs =
     (case repo_with_db drv cfg (execute_query drv sql (Some params) True GET) rs of
        (Inl e, rs') \<Rightarrow> (Inl e, rs')
      | (Inr rows, rs') \<Rightarrow> (Inr (rows_or_empty rows), rs'))"

definition QualityRepositoryMYSQL_search_schede_lavoro ::
  "driver \<Rightarrow> settings \<Rightarrow> string option \<Rightarrow> string option \<Rightarrow> int option \<Rightarrow> string option
     \<Rightarrow> string option \<Rightarrow> string option \<Rightarrow> int \<Rightarrow> int \<Rightarrow> repostate \<Rightarrow> (exn + row list) \<times> repostate" where
  "QualityRepositoryMYSQL_search_schede_lavoro drv cfg tipodoc numerodoc year codicecf
       fornitore_search articolo_search limit offset rs =
     run_select drv cfg search_schede_lavoro_sql
       (search_schede_lavoro_params tipodoc numerodoc year codicecf fornitore_search
          articolo_search limit offset) rs"

definition QualityRepositoryMYSQL_search_articoli_per_cliente ::
  "driver \<Rightarrow> settings \<Rightarrow> string option \<Rightarrow> int option \<Rightarrow> string option \<Rightarrow> string option
     \<Rightarrow> string option \<Rightarrow> int \<Rightarrow> int \<Rightarrow> repostate \<Rightarrow> (exn + row list) \<times> repostate" where
  "QualityRepositoryMYSQL_search_articoli_per_cliente drv cfg tipodoc year codicecf
       cliente_search articolo_search limit offset rs =
     run_select drv cfg search_articoli_per_cliente_sql
       (search_articoli_per_cliente_params tipodoc year codicecf cliente_search
          articolo_search limit offset) rs"

definition tipodoc_required_msg :: string where
  "tipodoc_required_msg = ''tipodoc '' @ [CHR 0xE8] @ '' obbligatorio per get_scheda_lavoro''"

definition numerodoc_required_msg :: string where
  "numerodoc_required_msg = ''numerodoc '' @ [CHR 0xE8] @ '' obbligatorio per get_scheda_lavoro''"

text \<open>\<open>not x\<close> for an optional string: absent or empty.\<close>

definition falsy :: "string option \<Rightarrow> bool" where
  "falsy x = (case x of None \<Rightarrow> True | Some s \<Rightarrow> s = [])"

definition get_scheda_lavoro_params :: "string option \<Rightarrow> int \<Rightarrow> string option \<Rightarrow> val list" where
  "get_scheda_lavoro_params tipodoc esanno numerodoc =
     [str_param tipodoc, VInt esanno, str_param numerodoc]"

definition QualityRepositoryMYSQL_get_scheda_lavoro ::
  "driver \<Rightarrow> settings \<Rightarrow> string option \<Rightarrow> int \<Rightarrow> string option \<Rightarrow> repostate
     \<Rightarrow> (exn + row list) \<times> repostate" where
  "QualityRepositoryMYSQL_get_scheda_lavoro drv cfg tipodoc esanno numerodoc rs =
     (if falsy tipodoc then (Inl (ValueError tipodoc_required_msg), rs)
      else if falsy numerodoc then (Inl (ValueError numerodoc_required_msg), rs)
      else run_select drv cfg get_scheda_lavoro_sql
             (get_scheda_lavoro_params tipodoc esanno numerodoc) rs)"

text \<open>The repository object as the service holds it.\<close>

definition QualityRepositoryMYSQL :: "driver \<Rightarrow> settings \<Rightarrow> repostate quality_repo" where
  "QualityRepositoryMYSQL drv cfg =
     \<lparr>repo_search_schede_lavoro = QualityRepositoryMYSQL_search_schede_lavoro drv cfg,
      repo_search_articoli_per_cliente = QualityRepositoryMYSQL_search_articoli_per_cliente drv cfg,
      repo_get_scheda_lavoro = QualityRepositoryMYSQL_get_scheda_lavoro drv cfg\<rparr>"

section \<open>The meaning of the queries\<close>

text \<open>
  The tables of \<open>fox_staging\<close> that the queries read. A table is a list of rows
  and a row gives every column its value; SQL \<open>NULL\<close> is \<open>VNone\<close>. Comparison
  is on equal values (a binary collation), and \<open>LIKE\<close> knows the wild cards
  \<open>%\<close> and \<open>_\<close>. A condition has three truth values: \<open>None\<close> is unknown.
\<close>

type_synonym trow = "string \<Rightarrow> val"

record database =
  doctes :: "trow list"
  docrig :: "trow list"
  anagrafe :: "trow list"
  magart :: "trow list"
  u_scimp :: "trow list"

type_synonym tv = "bool option"

definition holds :: "tv \<Rightarrow> bool" where
  "holds t = (t = Some True)"

definition sql_not :: "tv \<Rightarrow> tv" where
  "sql_not t = (case t of None \<Rightarrow> None | Some b \<Rightarrow> Some (\<not> b))"

definition sql_and :: "tv \<Rightarrow> tv \<Rightarrow> tv" where
  "sql_and s t =
     (if s = Some False \<or> t = Some False then Some False
      else if s = None \<or> t = None then None else Some True)"

definition sql_or :: "tv \<Rightarrow> tv \<Rightarrow> tv" where
  "sql_or s t =
     (if s = Some True \<or> t = Some True then Some True
      else if s = None \<or> t = None then None else Some False)"

definition sql_conj :: "tv list \<Rightarrow> tv" where
  "sql_conj ts = foldr sql_and ts (Some True)"

definition sql_disj :: "tv list \<Rightarrow> tv" where
  "sql_disj ts = foldr sql_or ts (Some False)"

definition is_null :: "val \<Rightarrow> tv" where
  "is_null v = Some (v = VNone)"

definition is_not_null :: "val \<Rightarrow> tv" where
  "is_not_null v = Some (v \<noteq> VNone)"

definition sql_eq :: "val \<Rightarrow> val \<Rightarrow> tv" where
  "sql_eq v w = (if v = VNone \<or> w = VNone then None else Some (v = w))"

definition sql_ne :: "val \<Rightarrow> val \<Rightarrow> tv" where
  "sql_ne v w = sql_not (sql_eq v w)"

definition sql_in :: "val \<Rightarrow> val list \<Rightarrow> tv" where
  "sql_in v ws = (if v = VNone then None else Some (v \<in> set ws))"

definition sql_text :: "val \<Rightarrow> string" where
  "sql_text v = (case v of VNone \<Rightarrow> [] | VInt n \<Rightarrow> py_str (VInt n) | VStr s \<Rightarrow> s)"

text \<open>\<open>like_match pattern text\<close>\<close>

fun like_match :: "string \<Rightarrow> string \<Rightarrow> bool" where
  "like_match [] [] = True"
| "like_match [] (c # s) = False"
| "like_match (p # ps) [] = (p = CHR ''%'' \<and> like_match ps [])"
| "like_match (p # ps) (c # s) =
     (if p = CHR ''%'' then like_match ps (c # s) \<or> like_match (p # ps) s
      else if p = CHR ''_'' then like_match ps s
      else p = c \<and> like_match ps s)"

definition sql_like :: "val \<Rightarrow> val \<Rightarrow> tv" where
  "sql_like v pat =
     (if v = VNone \<or> pat = VNone then None else Some (like_match (sql_text pat) (sql_text v)))"

definition sql_upper :: "val \<Rightarrow> val" where
  "sql_upper v = (if v = VNone then VNone else VStr (upper (sql_text v)))"

definition sql_concat :: "val list \<Rightarrow> val" where
  "sql_concat vs = (if VNone \<in> set vs then VNone else VStr (concat (map sql_text vs)))"

definition coalesce :: "val \<Rightarrow> val \<Rightarrow> val" where
  "coalesce v w = (if v \<noteq> VNone then v else w)"

definition nullif :: "val \<Rightarrow> val \<Rightarrow> val" where
  "nullif v w = (if holds (sql_eq v w) then VNone else v)"

definition concat_ws :: "val \<Rightarrow> val list \<Rightarrow> val" where
  "concat_ws sep vs =
     (if sep = VNone then VNone
      else VStr (join (sql_text sep) (map sql_text (filter (\<lambda>v. v \<noteq> VNone) vs))))"

text \<open>\<open>CONCAT('%%', v, '%%')\<close>\<close>

definition anywhere :: "val \<Rightarrow> val" where
  "anywhere v = sql_concat [VStr ''%%'', v, VStr ''%%'']"

text \<open>
  \<open>LEFT JOIN t ON c\<close>: the rows of \<open>t\<close> on which \<open>c\<close> holds, or one row of
  \<open>NULL\<close>s when there is none.
\<close>

definition null_row :: trow where
  "null_row = (\<lambda>c. VNone)"

definition left_join :: "trow list \<Rightarrow> (trow \<Rightarrow> tv) \<Rightarrow> trow list" where
  "left_join t c = (let ms = filter (\<lambda>x. holds (c x)) t in if ms = [] then [null_row] else ms)"

type_synonym joined = "trow \<times> trow \<times> trow \<times> trow \<times> trow"

text \<open>
  The \<open>FROM\<close> clause shared by the line search and the detail query:
  \<open>doctes d JOIN docrig r ON (key) LEFT JOIN anagrafe a LEFT JOIN magart ma
  LEFT JOIN u_scimp us\<close>.
\<close>

definition same_document :: "trow \<Rightarrow> trow \<Rightarrow> tv" where
  "same_document d r =
     sql_conj [sql_eq (r ''tipodoc'') (d ''tipodoc''),
               sql_eq (r ''esanno'') (d ''esanno''),
               sql_eq (r ''numerodoc'') (d ''numerodoc'')]"

definition lines_from :: "database \<Rightarrow> joined list" where
  "lines_from db =
     [(d, r, a, ma, us).
        d \<leftarrow> doctes db,
        r \<leftarrow> docrig db, holds (same_document d r),
        a \<leftarrow> left_join (anagrafe db) (\<lambda>a. sql_eq (a ''CODICE'') (d ''codicecf'')),
        ma \<leftarrow> left_join (magart db) (\<lambda>ma. sql_eq (ma ''CODICE'') (r ''codicearti'')),
        us \<leftarrow> left_join (u_scimp db) (\<lambda>us. sql_eq (us ''id_rigadoc'') (r ''id''))]"

definition componenti :: "trow \<Rightarrow> val" where
  "componenti r =
     concat_ws (VStr '' / '')
       [nullif (r ''u_compon1'') (VStr []), nullif (r ''u_compon2'') (VStr []),
        nullif (r ''u_compon3'') (VStr []), nullif (r ''u_compon4'') (VStr [])]"

text \<open>The select list of \<open>get_scheda_lavoro_sql\<close>.\<close>

definition select_get_scheda_lavoro :: "joined \<Rightarrow> row" where
  "select_get_scheda_lavoro = (\<lambda>(d, r, a, ma, us).
     [(''d_tipodoc'', d ''tipodoc''),
      (''d_esanno'', d ''esanno''),
      (''d_numerodoc'', d ''numerodoc''),
      (''d_datadoc'', d ''datadoc''),
      (''d_codicecf'', d ''codicecf''),
      (''d_cliente_nome'', coalesce (a ''SUPRAGSOC'') (a ''DESCRIZION'')),
      (''d_piva'', a ''PARTIVA''),
      (''d_cfisc'', a ''CODFISCALE''),
      (''d_ddragsoc'', d ''ddragsoc''),
      (''d_ddindir'', d ''ddindir''),
      (''d_ddcap'', d ''ddcap''),
      (''d_ddlocal'', d ''ddlocal''),
      (''d_totdoc'', d ''totdoc''),
      (''d_totimp'', d ''totimp''),
      (''d_totmerce'', d ''totmerce''),
      (''d_totiva'', d ''totiva''),
      (''d_oggetto'', d ''oggetto''),
      (''d_note_testa'', d ''note''),
      (''d_username'', d ''username''),
      (''d_timestamp_row'', d ''timestamp_row''),
      (''r_numeroriga'', r ''numeroriga''),
      (''r_codicearti'', r ''codicearti''),
      (''r_descrizione_articolo'', ma ''DESCRIZION''),
      (''r_descrizione_riga'', r ''descrizion''),
      (''r_unmisura'', r ''unmisura''),
      (''r_quantita'', r ''quantita''),
      (''r_quantitare'', r ''quantitare''),
      (''r_sconti'', r ''sconti''),
      (''r_prezzoun'', r ''prezzoun''),
      (''r_prezzotot'', r ''prezzotot''),
      (''r_aliiva'', r ''aliiva''),
      (''r_magpartenz'', r ''magpartenz''),
      (''r_magarrivo'', r ''magarrivo''),
      (''r_lotto'', r ''lotto''),
      (''r_commessa'', r ''commessa''),
      (''r_mezzo'', r ''mezzo''),
      (''r_tipolav'', r ''tipolav''),
      (''r_codcaumag'', r ''codcaumag''),
      (''r_note_riga'', r ''note''),
      (''r_username'', r ''username''),
      (''r_timestamp_row'', r ''timestamp_row''),
      (''r_pass'', coalesce (us ''passo'') (ma ''U_PASSO'')),
      (''r_fascia'', coalesce (us ''fascia'') (ma ''U_FASCIA'')),
      (''r_componenti'', componenti r)])"

text \<open>The select list of \<open>search_articoli_per_cliente_sql\<close>.\<close>

definition select_search_articoli :: "joined \<Rightarrow> row" where
  "select_search_articoli = (\<lambda>(d, r, a, ma, us).
     [(''d_tipodoc'', d ''tipodoc''),
      (''d_esanno'', d ''esanno''),
      (''d_numerodoc'', d ''numerodoc''),
      (''d_datadoc'', d ''datadoc''),
      (''d_codicecf'', d ''codicecf''),
      (''d_cliente_nome'', coalesce (a ''SUPRAGSOC'') (a ''DESCRIZION'')),
      (''r_numeroriga'', r ''numeroriga''),
      (''r_codicearti'', r ''codicearti''),
      (''r_descrizione_articolo'', ma ''DESCRIZION''),
      (''r_descrizione_riga'', r ''descrizion''),
      (''r_unmisura'', r ''unmisura''),
      (''r_quantita'', r ''quantita''),
      (''r_quantitare'', r ''quantitare''),
      (''r_pass'', coalesce (us ''passo'') (ma ''U_PASSO'')),
      (''r_fascia'', coalesce (us ''fascia'') (ma ''U_FASCIA'')),
      (''r_componenti'', componenti r)])"

text \<open>
  \<open>ORDER BY\<close>: values are ordered with \<open>NULL\<close> first, then numbers, then
  texts; sorting is stable, and a descending sort is the ascending one
  reversed.
\<close>

definition order_key :: "val \<Rightarrow> nat \<times> int \<times> string" where
  "order_key v = (case v of VNone \<Rightarrow> (0, 0, []) | VInt n \<Rightarrow> (1, n, []) | VStr s \<Rightarrow> (2, 0, s))"

definition order_asc :: "('a \<Rightarrow> val) \<Rightarrow> 'a list \<Rightarrow> 'a list" where
  "order_asc f xs = sort_key (\<lambda>x. order_key (f x)) xs"

definition order_desc :: "('a \<Rightarrow> val) \<Rightarrow> 'a list \<Rightarrow> 'a list" where
  "order_desc f xs = rev (sort_key (\<lambda>x. order_key (f x)) (rev xs))"

definition param_count_error :: exn where
  "param_count_error = DriverError ''Wrong number of parameters for the SQL statement''"

definition limit_error :: exn where
  "limit_error = DriverError ''You have an error in your SQL syntax''"

text \<open>
  \<open>get_scheda_lavoro_sql\<close> with its three parameters bound in order.
\<close>

definition where_get_scheda_lavoro :: "val \<Rightarrow> val \<Rightarrow> val \<Rightarrow> joined \<Rightarrow> tv" where
  "where_get_scheda_lavoro p1 p2 p3 = (\<lambda>(d, r, a, ma, us).
     sql_conj [sql_eq (d ''tipodoc'') p1,
               sql_eq (d ''esanno'') p2,
               sql_eq (d ''numerodoc'') p3,
               is_not_null (r ''codicearti''),
               sql_ne (r ''codicearti'') (VStr [])])"

definition get_scheda_lavoro_query :: "database \<Rightarrow> val list \<Rightarrow> exn + row list" where
  "get_scheda_lavoro_query db params =
     (case params of
        [p1, p2, p3] \<Rightarrow>
          Inr (map select_get_scheda_lavoro
                 (order_asc (\<lambda>(d, r, a, ma, us). r ''numeroriga'')
                    (filter (\<lambda>j. holds (where_get_scheda_lavoro p1 p2 p3 j)) (lines_from db))))
      | _ \<Rightarrow> Inl param_count_error)"

text \<open>
  \<open>search_articoli_per_cliente_sql\<close> with its seventeen parameters bound in
  order; \<open>p ! i\<close> is the parameter of placeholder \<open>i + 1\<close>.
\<close>

definition where_search_articoli :: "val list \<Rightarrow> joined \<Rightarrow> tv" where
  "where_search_articoli p = (\<lambda>(d, r, a, ma, us).
     sql_conj
       [sql_in (d ''tipodoc'') (map VStr TIPI_DOC_LAVORO),
        sql_or (is_null (p ! 0)) (sql_eq (d ''tipodoc'') (p ! 1)),
        sql_or (is_null (p ! 2)) (sql_eq (d ''esanno'') (p ! 3)),
        sql_or (is_null (p ! 4)) (sql_eq (d ''codicecf'') (p ! 5)),
        sql_disj [is_null (p ! 6),
                  sql_like (a ''DESCRIZION'') (anywhere (p ! 7)),
                  sql_like (a ''SUPRAGSOC'') (anywhere (p ! 8))],
        sql_or (is_null (p ! 9))
          (sql_disj [sql_like (r ''codicearti'') (anywhere (p ! 10)),
                     sql_like (r ''descrizion'') (anywhere (p ! 11)),
                     sql_like (ma ''DESCRIZION'') (anywhere (p ! 12)),
                     sql_like (us ''passo'') (anywhere (p ! 13)),
                     sql_like (us ''fascia'') (anywhere (p ! 14))]),
        sql_not
          (sql_disj [sql_like (sql_upper (r ''codicearti'')) (VStr ''CONAI%%''),
                     sql_like (sql_upper (r ''codicearti'')) (VStr ''BANCALE%%''),
                     sql_like (sql_upper (r ''descrizion'')) (VStr ''%CONAI%''),
                     sql_like (sql_upper (r ''descrizion'')) (VStr ''%BANCALE%''),
                     sql_like (sql_upper (ma ''DESCRIZION'')) (VStr ''%CONAI%''),
                     sql_like (sql_upper (ma ''DESCRIZION'')) (VStr ''%BANCALE%'')]),
        is_not_null (r ''codicearti''),
        sql_ne (r ''codicearti'') (VStr [])])"

definition limit_offset :: "val \<Rightarrow> val \<Rightarrow> 'a list \<Rightarrow> exn + 'a list" where
  "limit_offset l off xs =
     (case (l, off) of
        (VInt n, VInt m) \<Rightarrow>
          if n < 0 \<or> m < 0 then Inl limit_error else Inr (take (nat n) (drop (nat m) xs))
      | _ \<Rightarrow> Inl limit_error)"

definition search_articoli_per_cliente_query :: "database \<Rightarrow> val list \<Rightarrow> exn + row list" where
  "search_articoli_per_cliente_query db p =
     (if length p \<noteq> 17 then Inl param_count_error
      else
        limit_offset (p ! 15) (p ! 16)
          (map select_search_articoli
             (order_desc (\<lambda>(d, r, a, ma, us). d ''datadoc'')
                (order_desc (\<lambda>(d, r, a, ma, us). d ''numerodoc'')
                   (order_asc (\<lambda>(d, r, a, ma, us). r ''numeroriga'')
                      (filter (\<lambda>j. holds (where_search_articoli p j)) (lines_from db)))))))"

text \<open>\<open>sub in s\<close>\<close>

fun contains :: "string \<Rightarrow> string \<Rightarrow> bool" where
  "contains [] sub = (sub = [])"
| "contains (c # s) sub = (startswith (c # s) sub \<or> contains s sub)"

section \<open>Properties stated in the terms of the specification, and example inputs\<close>

definition demo_detail_rows :: "row list" where
  "demo_detail_rows =
     [[(''d_tipodoc'', VStr ''OC''), (''d_numerodoc'', VStr ''7''), (''r_numeroriga'', VInt 1)],
      [(''d_tipodoc'', VStr ''OC''), (''d_numerodoc'', VStr ''7''), (''r_numeroriga'', VInt 2)]]"

definition demo_list_rows :: "row list" where
  "demo_list_rows =
     [[(''d_tipodoc'', VStr ''oc''), (''d_numerodoc'', VStr ''7''), (''r_codicearti'', VStr ''A1'')],
      [(''d_tipodoc'', VStr ''XX''), (''d_numerodoc'', VStr ''8''), (''r_codicearti'', VStr ''A2'')],
      [(''d_tipodoc'', VNone), (''d_numerodoc'', VStr ''9''), (''r_codicearti'', VStr ''A3'')]]"

definition demo_repo :: "nat quality_repo" where
  "demo_repo =
     \<lparr>repo_search_schede_lavoro = (\<lambda>t n y c f a l off s. (Inr demo_list_rows, Suc s)),
      repo_search_articoli_per_cliente = (\<lambda>t y c f a l off s. (Inr demo_list_rows, Suc s)),
      repo_get_scheda_lavoro = (\<lambda>t y n s. (Inr demo_detail_rows, Suc s))\<rparr>"

definition type_code_ok :: "row \<Rightarrow> bool" where
  "type_code_ok m =
     (\<not> truthy (dict_get m ''tipodoc'')
      \<or> upper (py_str (dict_get m ''tipodoc'')) \<in> set DEFAULT_TIPI_DOC)"


definition demo_settings :: settings where
  "demo_settings =
     \<lparr>API_MYSQL_HOSTNAME = ''db.local'', API_MYSQL_PORT = 3306, API_MYSQL_USERNAME = ''api'',
      API_MYSQL_PASSWORD = ''secret'', API_MYSQL_DB = ''plax'', QUALITY_MYSQL_DB = ''fox_staging'',
      QUALITY_MYSQL_HOSTNAME = None, QUALITY_MYSQL_PORT = None, QUALITY_MYSQL_USERNAME = None,
      QUALITY_MYSQL_PASSWORD = None\<rparr>"

definition demo_target :: connect_args where
  "demo_target =
     \<lparr>host = ''db.local'', port = 3306, user = ''api'', password = ''secret'',
      database = ''fox_staging''\<rparr>"

text \<open>
  A driver that hands out connection 7, refuses the parameter \<open>BAD\<close> and the
  commit after the statement \<open>LOCKED\<close>, and answers every other statement
  with the two example rows.
\<close>

definition demo_driver :: driver where
  "demo_driver =
     \<lparr>drv_connect = (\<lambda>log args. Inr 7),
      drv_is_connected = (\<lambda>log c. c = 7),
      drv_execute = (\<lambda>log c sql ps multi.
                       if ps = Some [VStr ''BAD''] then Some (DriverError ''syntax'') else None),
      drv_fetchall = (\<lambda>log c. Inr demo_detail_rows),
      drv_commit = (\<lambda>log c. if EvExecute c ''LOCKED'' None False \<in> set log
                              then Some (DriverError ''lock wait timeout'') else None),
      drv_cursor = (\<lambda>log c. None),
      drv_rollback = (\<lambda>log c. None),
      drv_cursor_close = (\<lambda>log c. None)\<rparr>"



definition demo_db :: mysqldb where
  "demo_db = \<lparr>db_name = Some ''fox_staging'', conn = None\<rparr>"

text \<open>
  A piece of text is clean when the driver finds no placeholder in it and it
  does not end in a percent sign, so that none arises where it is joined to
  what follows.
\<close>

definition clean :: "string \<Rightarrow> bool" where
  "clean s = (placeholders s = 0 \<and> (s = [] \<or> last s \<noteq> CHR ''%''))"

fun clean_piece :: "piece \<Rightarrow> bool" where
  "clean_piece (T s) = clean s"
| "clean_piece (P x) = True"

text \<open>The value each placeholder of the header search is meant to receive.\<close>

definition header_search_binding ::
  "string option \<Rightarrow> string option \<Rightarrow> int option \<Rightarrow> string option \<Rightarrow> string option
     \<Rightarrow> string option \<Rightarrow> int \<Rightarrow> int \<Rightarrow> slot \<Rightarrow> val" where
  "header_search_binding tipodoc numerodoc year codicecf fornitore_search articolo_search
       limit offset x =
     (case x of
        Tipodoc_filter \<Rightarrow> str_param (norm_upper tipodoc)
      | Numerodoc_filter \<Rightarrow> str_param (norm_text numerodoc)
      | Esanno_filter \<Rightarrow> int_param year
      | Codicecf_filter \<Rightarrow> str_param (norm_text codicecf)
      | Fornitore_search \<Rightarrow> str_param (norm_text fornitore_search)
      | Articolo_search \<Rightarrow> str_param (norm_text articolo_search)
      | Limit \<Rightarrow> VInt limit
      | Offset \<Rightarrow> VInt offset)"

text \<open>The calls of \<open>cursor.execute\<close> among the events of a log.\<close>

fun executed :: "event list \<Rightarrow> (string \<times> val list option \<times> bool) list" where
  "executed [] = []"
| "executed (EvExecute c sql ps multi # evs) = (sql, ps, multi) # executed evs"
| "executed (ev # evs) = executed evs"

text \<open>
  What the counterparty-line search promises of a line, given its item code,
  its line description and its item-master description: the code is present
  and not empty and does not start with a packaging sentinel, and neither
  description contains one, letter case aside.
\<close>

definition PACKAGING_SENTINELS :: "string list" where
  "PACKAGING_SENTINELS = [''CONAI'', ''BANCALE'']"

definition product_line :: "val \<Rightarrow> val \<Rightarrow> val \<Rightarrow> bool" where
  "product_line code riga articolo =
     (code \<noteq> VNone \<and> code \<noteq> VStr []
      \<and> (\<forall>s \<in> set PACKAGING_SENTINELS.
            \<not> startswith (upper (sql_text code)) s
            \<and> \<not> contains (upper (sql_text riga)) s
            \<and> \<not> contains (upper (sql_text articolo)) s))"

text \<open>A table row written as the list of its columns that are not \<open>NULL\<close>.\<close>

definition table_row :: "(string \<times> val) list \<Rightarrow> trow" where
  "table_row kvs = (\<lambda>c. case map_of kvs c of None \<Rightarrow> VNone | Some v \<Rightarrow> v)"

text \<open>
  An example database: order \<open>OC/2024/7\<close> of customer \<open>C001\<close> with four lines,
  one of them without an item code, one a packaging contribution and one a
  pallet.
\<close>

definition demo_header :: trow where
  "demo_header =
     table_row [(''tipodoc'', VStr ''OC''), (''esanno'', VInt 2024), (''numerodoc'', VStr ''7''),
                (''datadoc'', VStr ''2024-03-01''), (''codicecf'', VStr ''C001'')]"

definition demo_line :: "int \<Rightarrow> string \<Rightarrow> string \<Rightarrow> trow" where
  "demo_line n code descr =
     table_row [(''id'', VInt n), (''tipodoc'', VStr ''OC''), (''esanno'', VInt 2024),
                (''numerodoc'', VStr ''7''), (''numeroriga'', VInt n), (''codicearti'', VStr code),
                (''descrizion'', VStr descr)]"

definition demo_customer :: trow where
  "demo_customer = table_row [(''CODICE'', VStr ''C001''), (''DESCRIZION'', VStr ''Rossi Spa'')]"

definition demo_item :: "string \<Rightarrow> string \<Rightarrow> trow" where
  "demo_item code descr = table_row [(''CODICE'', VStr code), (''DESCRIZION'', VStr descr)]"

definition demo_database :: database where
  "demo_database =
     \<lparr>doctes = [demo_header],
      docrig = [demo_line 3 ''conai01'' ''Contributo'', demo_line 2 [] ''Nota di consegna'',
                demo_line 4 ''P1'' ''Bancale EPAL'', demo_line 1 ''ART1'' ''Film estensibile''],
      anagrafe = [demo_customer],
      magart = [demo_item ''ART1'' ''Film'', demo_item ''P1'' ''Pallet'',
                demo_item ''conai01'' ''Contributo''],
      u_scimp = []\<rparr>"

text \<open>A repository that answers the line search from the example database.\<close>

definition demo_sql_repo :: "nat quality_repo" where
  "demo_sql_repo =
     \<lparr>repo_search_schede_lavoro = (\<lambda>t n y c f a l off s. (Inr [], s)),
      repo_search_articoli_per_cliente = (\<lambda>t y c f a l off s.
         (search_articoli_per_cliente_query demo_database
            (search_articoli_per_cliente_params t y c f a l off), s)),
      repo_get_scheda_lavoro = (\<lambda>t y n s.
         (get_scheda_lavoro_query demo_database (get_scheda_lavoro_params t y n), s))\<rparr>"

text \<open>The line numbers of the rows of a result.\<close>

definition line_numbers :: "row list \<Rightarrow> val list" where
  "line_numbers rows = map (\<lambda>rw. dict_get rw ''r_numeroriga'') rows"

text \<open>
  The reading of the detail query under which no line is omitted: every line
  of \<open>docrig\<close> that belongs to a header with the requested key has its line
  number among the rows returned.
\<close>

definition returns_every_line :: "database \<Rightarrow> string option \<Rightarrow> int \<Rightarrow> string option \<Rightarrow> bool" where
  "returns_every_line db tipodoc esanno numerodoc =
     (\<forall>d \<in> set (doctes db). \<forall>r \<in> set (docrig db).
        d ''tipodoc'' = str_param tipodoc \<and> d ''esanno'' = VInt esanno
        \<and> d ''numerodoc'' = str_param numerodoc \<and> holds (same_document d r)
        \<longrightarrow> r ''numeroriga'' \<in> set (line_numbers (projr (get_scheda_lavoro_query db
                (get_scheda_lavoro_params tipodoc esanno numerodoc)))))"

section \<open>Proofs\<close>

lemma startswith_drop2:
  "length pfx = 2 \<Longrightarrow> (startswith key pfx \<and> drop 2 key = k) = (key = pfx @ k)"
  unfolding startswith_def
  by (metis append_eq_conv_conj append_take_drop_id)

lemma map_of_extract_step:
  assumes "length pfx = 2"
  shows "map_of (extract_step pfx x acc) k =
      (if fst x = pfx @ k then Some (snd x) else map_of acc k)"
proof (cases "startswith (fst x) pfx")
  case True
  define k' where "k' = drop 2 (fst x)"
  have eq: "fst x = pfx @ k'"
    using startswith_drop2 [OF assms, of "fst x" k'] True k'_def by simp
  have "extract_step pfx x acc = AList.update k' (snd x) acc"
    using True by (simp add: extract_step_def k'_def)
  then have "map_of (extract_step pfx x acc) k = (if k = k' then Some (snd x) else map_of acc k)"
    by (simp add: update_conv')
  moreover have "(k = k') = (fst x = pfx @ k)"
    using eq by auto
  ultimately show ?thesis by simp
next
  case False
  then have "fst x \<noteq> pfx @ k"
    using startswith_drop2 [OF assms, of "fst x" k] by auto
  with False show ?thesis
    by (simp add: extract_step_def)
qed

lemma map_of_extract_fold:
  "length pfx = 2 \<Longrightarrow>
   map_of (fold (extract_step pfx) r acc) k =
     (case map_of (rev r) (pfx @ k) of Some v \<Rightarrow> Some v | None \<Rightarrow> map_of acc k)"
proof (induction r arbitrary: acc)
  case Nil
  then show ?case by simp
next
  case (Cons x r)
  show ?case
    using Cons.IH [OF Cons.prems, of "extract_step pfx x acc"]
      map_of_extract_step [OF Cons.prems, of x acc k]
    by (cases x) (auto simp: map_add_def split: option.splits)
qed

lemma map_of_rev_distinct: "distinct (map fst xs) \<Longrightarrow> map_of (rev xs) = map_of xs"
proof (induction xs)
  case Nil
  then show ?case by simp
next
  case (Cons x xs)
  obtain a b where x: "x = (a, b)" by (cases x)
  from Cons.prems x have none: "map_of xs a = None"
    by (simp add: map_of_eq_None_iff)
  from Cons have ih: "map_of (rev xs) = map_of xs" by simp
  show ?case
  proof
    fix y
    show "map_of (rev (x # xs)) y = map_of (x # xs) y"
      using none by (cases "map_of xs y") (auto simp: x ih map_add_def)
  qed
qed

lemma dict_get_extract_header:
  "distinct (map fst r) \<Longrightarrow> dict_get (extract_header r) k = dict_get r (''d_'' @ k)"
  by (simp add: dict_get_def extract_header_def map_of_extract_fold map_of_rev_distinct split: option.splits)

lemma dict_get_extract_row:
  "distinct (map fst r) \<Longrightarrow> dict_get (extract_row r) k = dict_get r (''r_'' @ k)"
  by (simp add: dict_get_def extract_row_def map_of_extract_fold map_of_rev_distinct split: option.splits)

lemma schede_loop_eq:
  "schede_loop rows out =
     out @ map extract_header (filter (\<lambda>r. \<not> tip_rejected (resolved_tip (extract_header r))) rows)"
  by (induction rows arbitrary: out) (simp_all add: Let_def)

lemma articoli_loop_eq:
  "articoli_loop rows out =
     out @ map (\<lambda>r. make_item (extract_header r) (extract_row r))
             (filter (\<lambda>r. \<not> tip_rejected (resolved_tip (extract_header r))) rows)"
  by (induction rows arbitrary: out) (simp_all add: Let_def)

lemma resolved_tip_make_item: "resolved_tip (make_item h r) = resolved_tip h"
  by (simp add: resolved_tip_def make_item_def dict_get_def)

lemma digits_of_nonempty: "digits_of n \<noteq> []"
  by (subst digits_of.simps) simp

lemma py_str_truthy_nonempty: "truthy v \<Longrightarrow> upper (py_str v) \<noteq> []"
  by (cases v) (simp_all add: upper_def digits_of_nonempty)

lemma not_rejected_iff: "\<not> tip_rejected (resolved_tip m) \<longleftrightarrow> type_code_ok m"
proof (cases "truthy (dict_get m ''tipodoc'')")
  case True
  then show ?thesis
    using py_str_truthy_nonempty [OF True]
    by (simp add: tip_rejected_def resolved_tip_def py_or_def type_code_ok_def)
next
  case False
  then show ?thesis
    by (simp add: tip_rejected_def resolved_tip_def py_or_def upper_def type_code_ok_def)
qed

lemma type_code_ok_make_item: "type_code_ok (make_item h r) = type_code_ok h"
  by (simp add: type_code_ok_def make_item_def dict_get_def)

lemma dict_get_make_item_tipodoc: "dict_get (make_item h r) ''tipodoc'' = dict_get h ''tipodoc''"
  by (simp add: make_item_def dict_get_def)

text \<open>
  C4. The detail operation of the service: on zero rows the result has no
  header and no lines, and nothing is raised; on \<open>n \<ge> 1\<close> rows the header is
  the \<open>d_\<close> projection of the first row and line \<open>i\<close> is the \<open>r_\<close> projection
  of row \<open>i\<close>, a projection holding under \<open>k\<close> what the row holds under the
  prefixed key.
\<close>

theorem get_scheda_lavoro_projection:
  assumes "repo_get_scheda_lavoro repo tipodoc esanno numerodoc s = (Inr rows, s')"
  shows "(rows = [] \<longrightarrow>
            QualityService_get_scheda_lavoro repo tipodoc esanno numerodoc s =
              (Inr \<lparr>header = None, righe = []\<rparr>, s'))
       \<and> (rows \<noteq> [] \<longrightarrow>
            QualityService_get_scheda_lavoro repo tipodoc esanno numerodoc s =
              (Inr \<lparr>header = Some (extract_header (rows ! 0)), righe = map extract_row rows\<rparr>, s')
          \<and> (distinct (map fst (rows ! 0)) \<longrightarrow>
               (\<forall>k. map_of (extract_header (rows ! 0)) k = map_of (rows ! 0) (''d_'' @ k)))
          \<and> length (map extract_row rows) = length rows
          \<and> (\<forall>i < length rows.
                map extract_row rows ! i = extract_row (rows ! i)
              \<and> (distinct (map fst (rows ! i)) \<longrightarrow>
                   (\<forall>k. map_of (extract_row (rows ! i)) k = map_of (rows ! i) (''r_'' @ k)))))"
proof (cases rows)
  case Nil
  with assms show ?thesis
    by (simp add: QualityService_get_scheda_lavoro_def)
next
  case (Cons r0 rest)
  have res: "QualityService_get_scheda_lavoro repo tipodoc esanno numerodoc s =
      (Inr \<lparr>header = Some (extract_header (rows ! 0)), righe = map extract_row rows\<rparr>, s')"
    using assms Cons by (simp add: QualityService_get_scheda_lavoro_def)
  have ne: "rows \<noteq> []"
    using Cons by simp
  have hd: "distinct (map fst r) \<Longrightarrow> map_of (extract_header r) k = map_of r (''d_'' @ k)" for r k
    by (simp add: extract_header_def map_of_extract_fold map_of_rev_distinct split: option.splits)
  have ln: "distinct (map fst r) \<Longrightarrow> map_of (extract_row r) k = map_of r (''r_'' @ k)" for r k
    by (simp add: extract_row_def map_of_extract_fold map_of_rev_distinct split: option.splits)
  show ?thesis
    using res ne hd ln by simp
qed

theorem get_scheda_lavoro_projection_witness:
  "repo_get_scheda_lavoro demo_repo (Some ''OC'') 2024 (Some ''7'') 0 = (Inr demo_detail_rows, 1)
   \<and> demo_detail_rows \<noteq> []
   \<and> QualityService_get_scheda_lavoro demo_repo (Some ''OC'') 2024 (Some ''7'') 0 =
       (Inr \<lparr>header = Some [(''tipodoc'', VStr ''OC''), (''numerodoc'', VStr ''7'')],
             righe = [[(''numeroriga'', VInt 1)], [(''numeroriga'', VInt 2)]]\<rparr>, 1)"
proof -
  have hyp: "repo_get_scheda_lavoro demo_repo (Some ''OC'') 2024 (Some ''7'') 0 = (Inr demo_detail_rows, 1)"
    by (simp add: demo_repo_def)
  have ne: "demo_detail_rows \<noteq> []"
    by (simp add: demo_detail_rows_def)
  from get_scheda_lavoro_projection [OF hyp] ne
  have "QualityService_get_scheda_lavoro demo_repo (Some ''OC'') 2024 (Some ''7'') 0 =
          (Inr \<lparr>header = Some (extract_header (demo_detail_rows ! 0)),
                righe = map extract_row demo_detail_rows\<rparr>, 1)"
    by blast
  then show ?thesis
    using hyp ne
    by (simp add: demo_detail_rows_def extract_header_def extract_row_def extract_step_def startswith_def)
qed

text \<open>
  C5. The list operations keep exactly the rows whose resolved type code is
  empty or recognised, in order; so every mapping returned has a type code
  that is absent or empty or whose upper-cased text is one of
  \<open>OC, ON, BA, CB, BC, BO\<close>, and a row with any other type code is dropped.
\<close>

theorem list_operations_type_filter:
  "(repo_search_schede_lavoro repo tipodoc numerodoc year codicecf fornitore_search
        articolo_search limit offset s = (Inr raw_rows, s') \<longrightarrow>
      (\<exists>out. QualityService_search_schede_lavoro repo tipodoc numerodoc year codicecf
                 fornitore_search articolo_search limit offset s = (Inr out, s')
           \<and> out = map extract_header (filter (\<lambda>r. type_code_ok (extract_header r)) raw_rows)
           \<and> (\<forall>m \<in> set out. type_code_ok m)
           \<and> (\<forall>r \<in> set raw_rows. \<not> type_code_ok (extract_header r) \<longrightarrow> extract_header r \<notin> set out)))
   \<and> (repo_search_articoli_per_cliente repo tipodoc2 year2 codicecf2 cliente_search
        articolo_search2 limit2 offset2 t = (Inr raw_rows2, t') \<longrightarrow>
      (\<exists>out. QualityService_search_articoli_per_cliente repo tipodoc2 year2 codicecf2
                 cliente_search articolo_search2 limit2 offset2 t = (Inr out, t')
           \<and> out = map (\<lambda>r. make_item (extract_header r) (extract_row r))
                     (filter (\<lambda>r. type_code_ok (extract_header r)) raw_rows2)
           \<and> (\<forall>m \<in> set out. type_code_ok m)
           \<and> (\<forall>r \<in> set raw_rows2. \<not> type_code_ok (extract_header r) \<longrightarrow>
                  make_item (extract_header r) (extract_row r) \<notin> set out)))"
proof (intro conjI impI)
  assume a: "repo_search_schede_lavoro repo tipodoc numerodoc year codicecf fornitore_search
        articolo_search limit offset s = (Inr raw_rows, s')"
  let ?out = "map extract_header (filter (\<lambda>r. type_code_ok (extract_header r)) raw_rows)"
  have 1: "QualityService_search_schede_lavoro repo tipodoc numerodoc year codicecf
                 fornitore_search articolo_search limit offset s = (Inr ?out, s')"
    using a by (simp add: QualityService_search_schede_lavoro_def schede_loop_eq not_rejected_iff)
  have 2: "\<forall>m \<in> set ?out. type_code_ok m"
    by simp
  have 3: "\<forall>r \<in> set raw_rows. \<not> type_code_ok (extract_header r) \<longrightarrow> extract_header r \<notin> set ?out"
    by auto
  show "\<exists>out. QualityService_search_schede_lavoro repo tipodoc numerodoc year codicecf
                 fornitore_search articolo_search limit offset s = (Inr out, s')
           \<and> out = ?out
           \<and> (\<forall>m \<in> set out. type_code_ok m)
           \<and> (\<forall>r \<in> set raw_rows. \<not> type_code_ok (extract_header r) \<longrightarrow> extract_header r \<notin> set out)"
  proof (rule exI [of _ ?out], intro conjI)
    show "?out = ?out" by (rule refl)
  qed (fact 1 2 3)+
next
  assume a: "repo_search_articoli_per_cliente repo tipodoc2 year2 codicecf2 cliente_search
        articolo_search2 limit2 offset2 t = (Inr raw_rows2, t')"
  let ?f = "\<lambda>r. make_item (extract_header r) (extract_row r)"
  let ?out = "map ?f (filter (\<lambda>r. type_code_ok (extract_header r)) raw_rows2)"
  have 1: "QualityService_search_articoli_per_cliente repo tipodoc2 year2 codicecf2
                 cliente_search articolo_search2 limit2 offset2 t = (Inr ?out, t')"
    using a by (simp add: QualityService_search_articoli_per_cliente_def articoli_loop_eq not_rejected_iff)
  have 2: "\<forall>m \<in> set ?out. type_code_ok m"
    by (simp add: type_code_ok_make_item)
  have 3: "\<forall>r \<in> set raw_rows2. \<not> type_code_ok (extract_header r) \<longrightarrow> ?f r \<notin> set ?out"
  proof (intro ballI impI notI)
    fix r
    assume bad: "\<not> type_code_ok (extract_header r)" and mem: "?f r \<in> set ?out"
    from mem 2 have "type_code_ok (?f r)" by blast
    with bad show False by (simp add: type_code_ok_make_item)
  qed
  show "\<exists>out. QualityService_search_articoli_per_cliente repo tipodoc2 year2 codicecf2
                 cliente_search articolo_search2 limit2 offset2 t = (Inr out, t')
           \<and> out = ?out
           \<and> (\<forall>m \<in> set out. type_code_ok m)
           \<and> (\<forall>r \<in> set raw_rows2. \<not> type_code_ok (extract_header r) \<longrightarrow> ?f r \<notin> set out)"
  proof (rule exI [of _ ?out], intro conjI)
    show "?out = ?out" by (rule refl)
  qed (fact 1 2 3)+
qed

theorem list_operations_type_filter_witness:
  "repo_search_schede_lavoro demo_repo None None None None None None 50 0 0 = (Inr demo_list_rows, 1)
   \<and> repo_search_articoli_per_cliente demo_repo None None None None None 50 0 0 = (Inr demo_list_rows, 1)
   \<and> QualityService_search_schede_lavoro demo_repo None None None None None None 50 0 0 =
       (Inr [[(''tipodoc'', VStr ''oc''), (''numerodoc'', VStr ''7'')],
             [(''tipodoc'', VNone), (''numerodoc'', VStr ''9'')]], 1)
   \<and> map (\<lambda>m. dict_get m ''codicearti'')
        (projr (fst (QualityService_search_articoli_per_cliente demo_repo None None None None None 50 0 0)))
       = [VStr ''A1'', VStr ''A3'']"
proof -
  have h1: "repo_search_schede_lavoro demo_repo None None None None None None 50 0 0 = (Inr demo_list_rows, 1)"
    by (simp add: demo_repo_def)
  have h2: "repo_search_articoli_per_cliente demo_repo None None None None None 50 0 0 = (Inr demo_list_rows, 1)"
    by (simp add: demo_repo_def)
  have keep: "filter (\<lambda>r. type_code_ok (extract_header r)) demo_list_rows
      = [demo_list_rows ! 0, demo_list_rows ! 2]"
    by (simp add: demo_list_rows_def extract_header_def extract_step_def startswith_def
         type_code_ok_def dict_get_def DEFAULT_TIPI_DOC_def upper_def upper_char_def)
  note inst = list_operations_type_filter [of demo_repo None None None None None None 50 0 0
      demo_list_rows 1 None None None None None 50 0 0 demo_list_rows 1]
  have r1: "QualityService_search_schede_lavoro demo_repo None None None None None None 50 0 0 =
          (Inr (map extract_header [demo_list_rows ! 0, demo_list_rows ! 2]), 1)"
    using inst h1 keep by simp
  have r2: "QualityService_search_articoli_per_cliente demo_repo None None None None None 50 0 0 =
          (Inr (map (\<lambda>r. make_item (extract_header r) (extract_row r))
             [demo_list_rows ! 0, demo_list_rows ! 2]), 1)"
    using inst h2 keep by simp
  have e1: "map extract_header [demo_list_rows ! 0, demo_list_rows ! 2] =
      [[(''tipodoc'', VStr ''oc''), (''numerodoc'', VStr ''7'')],
       [(''tipodoc'', VNone), (''numerodoc'', VStr ''9'')]]"
    by (simp add: demo_list_rows_def extract_header_def extract_step_def startswith_def)
  have e2: "map (\<lambda>r. dict_get (make_item (extract_header r) (extract_row r)) ''codicearti'')
      [demo_list_rows ! 0, demo_list_rows ! 2] = [VStr ''A1'', VStr ''A3'']"
    by (simp add: demo_list_rows_def extract_row_def extract_step_def startswith_def
          make_item_def dict_get_def)
  show ?thesis
    using h1 h2 e1 e2 by (simp add: r1 r2)
qed

text \<open>
  C10. The wrapper for the older routers returns what \<open>search_schede_lavoro\<close>
  returns without a type and a number filter; \<open>tipi_doc\<close> has no effect.
\<close>

theorem list_schede_lavoro_is_search:
  "QualityService_list_schede_lavoro repo year codicecf cliente_search text_search tipi
       limit offset s =
     QualityService_search_schede_lavoro repo None None year codicecf cliente_search text_search
       limit offset s
   \<and> QualityService_list_schede_lavoro repo year codicecf cliente_search text_search tipi
       limit offset s =
     QualityService_list_schede_lavoro repo year codicecf cliente_search text_search tipi2
       limit offset s"
  by (simp add: QualityService_list_schede_lavoro_def)

lemma execute_try_unfold:
  "execute_try drv c qt sql params log0 =
     (let ps = params_or_none params;
          multi = (qt = SCRIPT);
          log1 = log0 @ [EvExecute c sql ps multi]
      in case drv_execute drv log0 c sql ps multi of
           Some e \<Rightarrow> (Inl e, log1)
         | None \<Rightarrow>
             if qt = SELECT \<or> qt = GET then (drv_fetchall drv log1 c, log1 @ [EvFetchall c])
             else (case drv_commit drv log1 c of
                     Some e \<Rightarrow> (Inl e, log1 @ [EvCommit c])
                   | None \<Rightarrow> (Inr [], log1 @ [EvCommit c])))"
  by (auto simp: execute_try_def cursor_execute_def cursor_fetchall_def conn_commit_def Let_def
       split: option.splits sum.splits)







text \<open>
  C8. Without a live connection (none was established, or the connection
  reports that it is not connected) \<open>execute\<close> raises the \<open>RuntimeError\<close> for
  every operation kind, statement and parameter list, and calls the driver for
  nothing: the object and the log are as before.
\<close>

theorem execute_not_connected:
  assumes "conn db = None \<or> (\<exists>c. conn db = Some c \<and> \<not> drv_is_connected drv log c)"
  shows "execute drv qt sql params (db, log) = (Inl (RuntimeError not_connected_msg), (db, log))"
  using assms by (auto simp: execute_def)

theorem execute_not_connected_witness:
  "conn demo_db = None
   \<and> execute demo_driver INSERT ''INSERT INTO t VALUES (1)'' None (demo_db, [EvConnClose 7]) =
       (Inl (RuntimeError not_connected_msg), (demo_db, [EvConnClose 7]))"
  using execute_not_connected [of demo_db demo_driver "[EvConnClose 7]" INSERT
          "''INSERT INTO t VALUES (1)''" None]
  by (simp add: demo_db_def)

text \<open>
  C9. The scoped session: \<open>__enter__\<close> is \<open>connect\<close>; once entered, the
  outcome of the enclosed operation, value or exception, is handed on unchanged
  and \<open>close\<close> has run on the state the operation left. \<open>close\<close> always leaves
  the object without a connection, closing the connection when it is live and
  calling nothing when it is not.
\<close>

theorem dbmanager_scoped_session:
  "dbmanager_enter drv cfg st = connect drv cfg st
   \<and> (\<forall>st1 res st2. connect drv cfg st = (Inr (), st1) \<and> body st1 = (res, st2) \<longrightarrow>
         with_dbmanager drv cfg body st = (res, close drv st2))
   \<and> conn (fst (close drv st')) = None
   \<and> db_name (fst (close drv st')) = db_name (fst st')
   \<and> (\<not> is_live drv st' \<longrightarrow> snd (close drv st') = snd st')
   \<and> (\<forall>c. conn (fst st') = Some c \<and> drv_is_connected drv (snd st') c \<longrightarrow>
         snd (close drv st') = snd st' @ [EvConnClose c])"
  by (auto simp: dbmanager_enter_def dbmanager_exit_def with_dbmanager_def close_def is_live_def
        split: option.splits)

theorem dbmanager_scoped_session_witness:
  "connect demo_driver demo_settings (demo_db, []) =
     (Inr (), (demo_db\<lparr>conn := Some 7\<rparr>, [EvConnect demo_target]))
   \<and> with_dbmanager demo_driver demo_settings
        (execute_query demo_driver ''SELECT %s'' (Some [VStr ''BAD'']) True SELECT) (demo_db, []) =
       (Inl (DriverError ''syntax''),
        (demo_db,
         [EvConnect demo_target, EvCursor 7, EvExecute 7 ''SELECT %s'' (Some [VStr ''BAD'']) False, EvRollback 7,
          EvCursorClose 7, EvConnClose 7]))
   \<and> with_dbmanager demo_driver demo_settings
        (execute_query demo_driver ''SELECT 1'' None True SELECT) (demo_db, []) =
       (Inr demo_detail_rows,
        (demo_db,
         [EvConnect demo_target, EvCursor 7, EvExecute 7 ''SELECT 1'' None False, EvFetchall 7,
          EvCursorClose 7, EvConnClose 7]))
   \<and> \<not> is_live demo_driver (demo_db, [])
   \<and> close demo_driver (demo_db, []) = (demo_db, [])"
proof -
  let ?st1 = "(demo_db\<lparr>conn := Some 7\<rparr>, [EvConnect demo_target])"
  have c: "connect demo_driver demo_settings (demo_db, []) = (Inr (), ?st1)"
    by (simp add: connect_def is_live_def demo_db_def demo_driver_def connection_target_def
          demo_settings_def demo_target_def str_or_def int_or_def)
  have b1: "execute_query demo_driver ''SELECT %s'' (Some [VStr ''BAD'']) True SELECT ?st1 =
      (Inl (DriverError ''syntax''),
       (demo_db\<lparr>conn := Some 7\<rparr>,
        [EvConnect demo_target, EvCursor 7, EvExecute 7 ''SELECT %s'' (Some [VStr ''BAD'']) False, EvRollback 7,
         EvCursorClose 7]))"
    by (simp add: execute_query_def execute_def conn_cursor_def execute_try_unfold
          execute_except_def execute_finally_def conn_rollback_def cursor_close_def
          demo_driver_def params_or_none_def demo_db_def split: list.splits)
  have b2: "execute_query demo_driver ''SELECT 1'' None True SELECT ?st1 =
      (Inr demo_detail_rows,
       (demo_db\<lparr>conn := Some 7\<rparr>,
        [EvConnect demo_target, EvCursor 7, EvExecute 7 ''SELECT 1'' None False, EvFetchall 7,
         EvCursorClose 7]))"
    by (simp add: execute_query_def execute_def conn_cursor_def execute_try_unfold
          execute_except_def execute_finally_def conn_rollback_def cursor_close_def
          demo_driver_def params_or_none_def demo_db_def split: list.splits)
  have nl: "\<not> is_live demo_driver (demo_db, [])"
    by (simp add: is_live_def demo_db_def)
  have w1: "with_dbmanager demo_driver demo_settings
        (execute_query demo_driver ''SELECT %s'' (Some [VStr ''BAD'']) True SELECT) (demo_db, []) =
       (Inl (DriverError ''syntax''),
        close demo_driver (demo_db\<lparr>conn := Some 7\<rparr>,
        [EvConnect demo_target, EvCursor 7, EvExecute 7 ''SELECT %s'' (Some [VStr ''BAD'']) False, EvRollback 7,
         EvCursorClose 7]))"
    using dbmanager_scoped_session [of demo_driver demo_settings "(demo_db, [])"
        "execute_query demo_driver ''SELECT %s'' (Some [VStr ''BAD'']) True SELECT"] c b1
    by blast
  have w2: "with_dbmanager demo_driver demo_settings
        (execute_query demo_driver ''SELECT 1'' None True SELECT) (demo_db, []) =
       (Inr demo_detail_rows,
        close demo_driver (demo_db\<lparr>conn := Some 7\<rparr>,
        [EvConnect demo_target, EvCursor 7, EvExecute 7 ''SELECT 1'' None False, EvFetchall 7,
         EvCursorClose 7]))"
    using dbmanager_scoped_session [of demo_driver demo_settings "(demo_db, [])"
        "execute_query demo_driver ''SELECT 1'' None True SELECT"] c b2
    by blast
  have cl: "close demo_driver (demo_db\<lparr>conn := Some 7\<rparr>, evs) = (demo_db, evs @ [EvConnClose 7])" for evs
    by (simp add: close_def demo_driver_def demo_db_def)
  have cl0: "close demo_driver (demo_db, []) = (demo_db, [])"
    by (simp add: close_def demo_db_def)
  show ?thesis
    using c nl cl0 by (simp add: w1 w2 cl)
qed

lemma placeholders_append_clean:
  "placeholders s = 0 \<Longrightarrow> s = [] \<or> last s \<noteq> CHR ''%'' \<Longrightarrow> placeholders (s @ t) = placeholders t"
proof (induction s rule: placeholders.induct)
  case (1 c d rest)
  then show ?case by (auto split: if_splits)
next
  case (2 c)
  then show ?case by (cases t) auto
next
  case 3
  then show ?case by simp
qed

lemma placeholders_line:
  "list_all clean_piece l \<Longrightarrow>
   placeholders (concat (map render_piece l) @ t) = length (concat (map slot_of l)) + placeholders t"
proof (induction l)
  case Nil
  then show ?case by simp
next
  case (Cons p l)
  then show ?case
    by (cases p) (simp_all add: clean_def placeholders_append_clean)
qed

lemma placeholders_render:
  "list_all (list_all clean_piece) ls \<Longrightarrow> placeholders (render ls) = length (slots ls)"
proof (induction ls rule: induct_list012)
  case 1
  then show ?case by (simp add: render_def slots_def)
next
  case (2 l)
  then show ?case
    using placeholders_line [of l "[]"] by (simp add: render_def slots_def)
next
  case (3 l m ls)
  have nl: "placeholders ([CHR 0x0A] @ t) = placeholders t" for t
    by (rule placeholders_append_clean) simp_all
  from 3 show ?case
    using placeholders_line
            [of l "[CHR 0x0A] @ join [CHR 0x0A] (map (\<lambda>l. concat (map render_piece l)) (m # ls))"] nl
    by (simp add: render_def slots_def)
qed

lemma clean_tipi_doc: "clean tipi_doc"
  by (simp add: clean_def tipi_doc_def TIPI_DOC_LAVORO_def)

lemma search_schede_lavoro_template_clean:
  "list_all (list_all clean_piece) search_schede_lavoro_template"
  unfolding search_schede_lavoro_template_def
  by (simp add: clean_tipi_doc) (simp add: clean_def)

lemma search_schede_lavoro_slots:
  "slots search_schede_lavoro_template =
     [Tipodoc_filter, Tipodoc_filter, Numerodoc_filter, Numerodoc_filter,
      Esanno_filter, Esanno_filter, Codicecf_filter, Codicecf_filter,
      Fornitore_search, Fornitore_search, Fornitore_search,
      Articolo_search, Articolo_search, Articolo_search, Articolo_search, Articolo_search,
      Articolo_search, Limit, Offset]"
  by (simp add: slots_def search_schede_lavoro_template_def)

lemma executed_append: "executed (xs @ ys) = executed xs @ executed ys"
  by (induction xs rule: executed.induct) simp_all

lemma executed_connect: "executed (snd (snd (connect drv cfg st))) = executed (snd st)"
  by (simp add: connect_def Let_def executed_append split: sum.splits)

lemma executed_close: "executed (snd (close drv st)) = executed (snd st)"
  by (simp add: close_def executed_append split: option.splits)

lemma executed_execute_try:
  "executed (snd (execute_try drv c qt sql params log0)) =
     executed log0 @ [(sql, params_or_none params, qt = SCRIPT)]"
  by (simp add: execute_try_def cursor_execute_def cursor_fetchall_def conn_commit_def
        executed_append split: option.splits sum.splits)

lemma executed_execute_except:
  "executed (snd (execute_except drv c e log)) = executed log"
  by (simp add: execute_except_def conn_rollback_def executed_append split: option.splits)

lemma executed_execute_finally:
  "executed (snd (execute_finally drv c outcome log)) = executed log"
  by (simp add: execute_finally_def cursor_close_def executed_append split: option.splits)

lemma executed_execute:
  "executed (snd (snd (execute drv qt sql params st))) = executed (snd st)
   \<or> executed (snd (snd (execute drv qt sql params st))) =
       executed (snd st) @ [(sql, params_or_none params, qt = SCRIPT)]"
proof (cases "is_live drv st")
  case False
  then show ?thesis
    by (auto simp: execute_def is_live_def split: option.splits)
next
  case True
  then obtain c where c: "conn (fst st) = Some c" "drv_is_connected drv (snd st) c"
    by (auto simp: is_live_def split: option.splits)
  show ?thesis
  proof (cases "drv_cursor drv (snd st) c")
    case (Some e)
    with c show ?thesis
      by (simp add: execute_def conn_cursor_def executed_append)
  next
    case None
    obtain res log1 where t: "execute_try drv c qt sql params (snd st @ [EvCursor c]) = (res, log1)"
      by (cases "execute_try drv c qt sql params (snd st @ [EvCursor c])")
    have l1: "executed log1 = executed (snd st) @ [(sql, params_or_none params, qt = SCRIPT)]"
      using executed_execute_try [of drv c qt sql params "snd st @ [EvCursor c]"] t
      by (simp add: executed_append)
    show ?thesis
    proof (cases res)
      case (Inl e)
      obtain pending log2 where x: "execute_except drv c e log1 = (pending, log2)"
        by (cases "execute_except drv c e log1")
      obtain r3 log3 where f: "execute_finally drv c (Inl pending) log2 = (r3, log3)"
        by (cases "execute_finally drv c (Inl pending) log2")
      have "executed log3 = executed log1"
        using executed_execute_except [of drv c e log1] x
          executed_execute_finally [of drv c "Inl pending" log2] f
        by simp
      moreover have "snd (snd (execute drv qt sql params st)) = log3"
        using c None t Inl x f by (simp add: execute_def conn_cursor_def)
      ultimately show ?thesis
        using l1 by simp
    next
      case (Inr rows)
      obtain r3 log3 where f: "execute_finally drv c (Inr rows) log1 = (r3, log3)"
        by (cases "execute_finally drv c (Inr rows) log1")
      have "executed log3 = executed log1"
        using executed_execute_finally [of drv c "Inr rows" log1] f by simp
      moreover have "snd (snd (execute drv qt sql params st)) = log3"
        using c None t Inr f by (simp add: execute_def conn_cursor_def)
      ultimately show ?thesis
        using l1 by simp
    qed
  qed
qed

lemma executed_execute_query:
  "executed (snd (snd (execute_query drv sql params fa qt st))) = executed (snd st)
   \<or> executed (snd (snd (execute_query drv sql params fa qt st))) =
       executed (snd st) @ [(sql, params_or_none params, qt = SCRIPT)]"
proof -
  have "snd (snd (execute_query drv sql params fa qt st)) = snd (snd (execute drv qt sql params st))"
    by (cases "execute drv qt sql params st")
       (auto simp: execute_query_def split: sum.splits list.splits)
  then show ?thesis
    using executed_execute [of drv qt sql params st] by simp
qed

lemma executed_with_dbmanager:
  assumes "\<And>st1. executed (snd (snd (body st1))) = executed (snd st1)
                 \<or> executed (snd (snd (body st1))) = executed (snd st1) @ es"
  shows "executed (snd (snd (with_dbmanager drv cfg body st))) = executed (snd st)
       \<or> executed (snd (snd (with_dbmanager drv cfg body st))) = executed (snd st) @ es"
proof -
  obtain r st1 where Pair: "connect drv cfg st = (r, st1)"
    by (cases "connect drv cfg st")
  have c: "executed (snd st1) = executed (snd st)"
    using executed_connect [of drv cfg st] Pair by simp
  show ?thesis
  proof (cases r)
    case (Inl e)
    with Pair c show ?thesis
      by (simp add: with_dbmanager_def dbmanager_enter_def)
  next
    case (Inr u)
    obtain res st2 where b: "body st1 = (res, st2)" by (cases "body st1")
    have "with_dbmanager drv cfg body st = (res, close drv st2)"
      using Pair Inr b by (simp add: with_dbmanager_def dbmanager_enter_def dbmanager_exit_def)
    then show ?thesis
      using assms [of st1] b c by (auto simp: executed_close)
  qed
qed

lemma executed_run_select:
  "executed (snd (snd (run_select drv cfg sql params rs))) = executed (snd rs)
   \<or> executed (snd (snd (run_select drv cfg sql params rs))) =
       executed (snd rs) @ [(sql, params_or_none (Some params), False)]"
proof -
  have body: "\<And>st1. executed (snd (snd (execute_query drv sql (Some params) True GET st1))) =
        executed (snd st1)
      \<or> executed (snd (snd (execute_query drv sql (Some params) True GET st1))) =
        executed (snd st1) @ [(sql, params_or_none (Some params), False)]"
    using executed_execute_query [of drv sql "Some params" True GET] by simp
  show ?thesis
  proof (cases "fst rs")
    case None
    let ?st = "(\<lparr>db_name = Some (QUALITY_MYSQL_DB cfg), conn = None\<rparr>, snd rs)"
    obtain res st' where w: "with_dbmanager drv cfg (execute_query drv sql (Some params) True GET) ?st = (res, st')"
      by (cases "with_dbmanager drv cfg (execute_query drv sql (Some params) True GET) ?st")
    have "snd (snd (run_select drv cfg sql params rs)) = snd st'"
      using None w by (cases res) (simp_all add: run_select_def repo_with_db_def)
    then show ?thesis
      using executed_with_dbmanager [where body = "execute_query drv sql (Some params) True GET"
              and es = "[(sql, params_or_none (Some params), False)]" and drv = drv and cfg = cfg
              and st = ?st, OF body] w
      by simp
  next
    case (Some db)
    let ?st = "(db, snd rs)"
    obtain res st' where w: "with_dbmanager drv cfg (execute_query drv sql (Some params) True GET) ?st = (res, st')"
      by (cases "with_dbmanager drv cfg (execute_query drv sql (Some params) True GET) ?st")
    have "snd (snd (run_select drv cfg sql params rs)) = snd st'"
      using Some w by (cases res) (simp_all add: run_select_def repo_with_db_def)
    then show ?thesis
      using executed_with_dbmanager [where body = "execute_query drv sql (Some params) True GET"
              and es = "[(sql, params_or_none (Some params), False)]" and drv = drv and cfg = cfg
              and st = ?st, OF body] w
      by simp
  qed
qed

text \<open>
  C1. The header search binds one parameter for each of the nineteen
  placeholders of its template, in the order in which the placeholders occur:
  two for the type, the number, the year and the counterparty code, three for
  the counterparty name, six for the item text, then limit and offset; and this
  list, with this template, is what the call hands to \<open>cursor.execute\<close>.
\<close>

theorem search_schede_lavoro_binding:
  "placeholders search_schede_lavoro_sql = 19
   \<and> length (search_schede_lavoro_params tipodoc numerodoc year codicecf fornitore_search
               articolo_search limit offset) = placeholders search_schede_lavoro_sql
   \<and> slots search_schede_lavoro_template =
       replicate 2 Tipodoc_filter @ replicate 2 Numerodoc_filter @ replicate 2 Esanno_filter
       @ replicate 2 Codicecf_filter @ replicate 3 Fornitore_search @ replicate 6 Articolo_search
       @ [Limit, Offset]
   \<and> search_schede_lavoro_params tipodoc numerodoc year codicecf fornitore_search
        articolo_search limit offset =
       map (header_search_binding tipodoc numerodoc year codicecf fornitore_search
              articolo_search limit offset) (slots search_schede_lavoro_template)
   \<and> (let after = snd (snd (QualityRepositoryMYSQL_search_schede_lavoro drv cfg tipodoc numerodoc
                               year codicecf fornitore_search articolo_search limit offset rs))
      in executed after = executed (snd rs)
         \<or> executed after = executed (snd rs) @
              [(search_schede_lavoro_sql,
                Some (search_schede_lavoro_params tipodoc numerodoc year codicecf fornitore_search
                        articolo_search limit offset), False)])"
proof -
  let ?ps = "search_schede_lavoro_params tipodoc numerodoc year codicecf fornitore_search
               articolo_search limit offset"
  have n: "placeholders search_schede_lavoro_sql = 19"
    by (simp add: search_schede_lavoro_sql_def placeholders_render
          search_schede_lavoro_template_clean search_schede_lavoro_slots)
  have len: "length ?ps = 19"
    by (simp add: search_schede_lavoro_params_def Let_def)
  have sl: "slots search_schede_lavoro_template =
       replicate 2 Tipodoc_filter @ replicate 2 Numerodoc_filter @ replicate 2 Esanno_filter
       @ replicate 2 Codicecf_filter @ replicate 3 Fornitore_search @ replicate 6 Articolo_search
       @ [Limit, Offset]"
    by (simp add: search_schede_lavoro_slots numeral_eq_Suc)
  have bind: "?ps = map (header_search_binding tipodoc numerodoc year codicecf fornitore_search
              articolo_search limit offset) (slots search_schede_lavoro_template)"
    by (simp add: search_schede_lavoro_slots search_schede_lavoro_params_def Let_def
          header_search_binding_def)
  have ne: "params_or_none (Some ?ps) = Some ?ps"
    by (simp add: params_or_none_def search_schede_lavoro_params_def Let_def)
  have run: "let after = snd (snd (QualityRepositoryMYSQL_search_schede_lavoro drv cfg tipodoc numerodoc
                               year codicecf fornitore_search articolo_search limit offset rs))
      in executed after = executed (snd rs)
         \<or> executed after = executed (snd rs) @ [(search_schede_lavoro_sql, Some ?ps, False)]"
    using executed_run_select [of drv cfg search_schede_lavoro_sql ?ps rs] ne
    by (simp add: QualityRepositoryMYSQL_search_schede_lavoro_def Let_def)
  from n len sl bind run show ?thesis
    by (simp only: simp_thms)
qed

theorem search_schede_lavoro_binding_witness:
  "search_schede_lavoro_params (Some '' oc '') (Some ''12'') (Some 2024) None (Some ''  '') None 50 0 =
     [VStr ''OC'', VStr ''OC'', VStr ''12'', VStr ''12'', VInt 2024, VInt 2024, VNone, VNone,
      VNone, VNone, VNone, VNone, VNone, VNone, VNone, VNone, VNone, VInt 50, VInt 0]
   \<and> length (search_schede_lavoro_params (Some '' oc '') (Some ''12'') (Some 2024) None
               (Some ''  '') None 50 0) = placeholders search_schede_lavoro_sql
   \<and> executed (snd (snd (QualityRepositoryMYSQL_search_schede_lavoro demo_driver demo_settings
        (Some '' oc '') (Some ''12'') (Some 2024) None (Some ''  '') None 50 0 (None, [])))) =
       [(search_schede_lavoro_sql,
         Some [VStr ''OC'', VStr ''OC'', VStr ''12'', VStr ''12'', VInt 2024, VInt 2024, VNone, VNone,
               VNone, VNone, VNone, VNone, VNone, VNone, VNone, VNone, VNone, VInt 50, VInt 0],
         False)]"
proof -
  note inst = search_schede_lavoro_binding [of "Some '' oc ''" "Some ''12''" "Some 2024" None
                "Some ''  ''" None 50 0 demo_driver demo_settings "(None, [])"]
  have sp: "strip '' oc '' = ''oc''" "strip ''12'' = ''12''" "strip ''  '' = []" "strip [] = []"
    by (simp_all add: strip_def isspace_def)
  have ps: "search_schede_lavoro_params (Some '' oc '') (Some ''12'') (Some 2024) None (Some ''  '') None 50 0 =
     [VStr ''OC'', VStr ''OC'', VStr ''12'', VStr ''12'', VInt 2024, VInt 2024, VNone, VNone,
      VNone, VNone, VNone, VNone, VNone, VNone, VNone, VNone, VNone, VInt 50, VInt 0]"
    by (simp add: search_schede_lavoro_params_def Let_def norm_upper_def norm_text_def or_empty_def
          or_none_def str_param_def int_param_def sp upper_def upper_char_def)
  have run: "executed (snd (snd (QualityRepositoryMYSQL_search_schede_lavoro demo_driver demo_settings
        (Some '' oc '') (Some ''12'') (Some 2024) None (Some ''  '') None 50 0 (None, [])))) =
       [(search_schede_lavoro_sql,
         Some [VStr ''OC'', VStr ''OC'', VStr ''12'', VStr ''12'', VInt 2024, VInt 2024, VNone, VNone,
               VNone, VNone, VNone, VNone, VNone, VNone, VNone, VNone, VNone, VInt 50, VInt 0],
         False)]"
    unfolding QualityRepositoryMYSQL_search_schede_lavoro_def ps
    by (simp add: run_select_def repo_with_db_def with_dbmanager_def dbmanager_enter_def
          dbmanager_exit_def connect_def close_def is_live_def execute_query_def execute_def
          conn_cursor_def execute_finally_def cursor_close_def
          execute_try_def cursor_execute_def cursor_fetchall_def params_or_none_def
          demo_driver_def rows_or_empty_def demo_detail_rows_def)
  from inst have "length (search_schede_lavoro_params (Some '' oc '') (Some ''12'') (Some 2024) None
               (Some ''  '') None 50 0) = placeholders search_schede_lavoro_sql"
    by blast
  with ps run show ?thesis
    by simp
qed

lemma run_select_extends_log:
  "\<exists>ev evs. snd (snd (run_select drv cfg sql params rs)) = snd rs @ ev # evs"
proof -
  have ex: "\<exists>ev evs. snd (snd (execute drv qt sql ps st)) = snd st @ ev # evs" if "is_live drv st"
    for qt ps st
  proof -
    from that obtain c where c: "conn (fst st) = Some c" "drv_is_connected drv (snd st) c"
      by (auto simp: is_live_def split: option.splits)
    show ?thesis
    proof (cases "drv_cursor drv (snd st) c")
      case (Some e)
      with c show ?thesis
        by (simp add: execute_def conn_cursor_def)
    next
      case None
      have "\<exists>evs. snd (execute_try drv c qt sql ps (snd st @ [EvCursor c])) = (snd st @ [EvCursor c]) @ evs"
        by (auto simp: execute_try_def cursor_execute_def cursor_fetchall_def conn_commit_def
              split: option.splits sum.splits)
      then obtain evs where
        t: "snd (execute_try drv c qt sql ps (snd st @ [EvCursor c])) = (snd st @ [EvCursor c]) @ evs"
        by blast
      have xc: "\<exists>evs'. snd (execute_except drv c e log) = log @ evs'" for e log
        by (simp add: execute_except_def conn_rollback_def split: option.splits)
      have fi: "\<exists>evs'. snd (execute_finally drv c outcome log) = log @ evs'" for outcome log
        by (simp add: execute_finally_def cursor_close_def split: option.splits)
      obtain res log1 where tt: "execute_try drv c qt sql ps (snd st @ [EvCursor c]) = (res, log1)"
        by (cases "execute_try drv c qt sql ps (snd st @ [EvCursor c])")
      with t have l1: "log1 = snd st @ EvCursor c # evs" by simp
      show ?thesis
      proof (cases res)
        case (Inl e)
        obtain pending log2 where x: "execute_except drv c e log1 = (pending, log2)"
          by (cases "execute_except drv c e log1")
        obtain r3 log3 where f: "execute_finally drv c (Inl pending) log2 = (r3, log3)"
          by (cases "execute_finally drv c (Inl pending) log2")
        from xc [of e log1] x obtain e2 where "log2 = log1 @ e2" by auto
        moreover from fi [of "Inl pending" log2] f obtain e3 where "log3 = log2 @ e3" by auto
        moreover have "snd (snd (execute drv qt sql ps st)) = log3"
          using c None tt Inl x f by (simp add: execute_def conn_cursor_def)
        ultimately show ?thesis
          using l1 by simp
      next
        case (Inr rows)
        obtain r3 log3 where f: "execute_finally drv c (Inr rows) log1 = (r3, log3)"
          by (cases "execute_finally drv c (Inr rows) log1")
        from fi [of "Inr rows" log1] f obtain e3 where "log3 = log1 @ e3" by auto
        moreover have "snd (snd (execute drv qt sql ps st)) = log3"
          using c None tt Inr f by (simp add: execute_def conn_cursor_def)
        ultimately show ?thesis
          using l1 by simp
      qed
    qed
  qed
  have cl: "\<exists>evs. snd (close drv st) = snd st @ evs" for st
    by (auto simp: close_def split: option.splits)
  have wd: "\<exists>ev evs. snd (snd (with_dbmanager drv cfg (execute_query drv sql ps True GET) st)) = snd st @ ev # evs"
    for ps st
  proof (cases "is_live drv st")
    case True
    then have c: "connect drv cfg st = (Inr (), st)"
      by (simp add: connect_def)
    obtain res st2 where e: "execute drv GET sql ps st = (res, st2)"
      by (cases "execute drv GET sql ps st")
    from ex [OF True, of GET ps] e obtain ev evs where l: "snd st2 = snd st @ ev # evs"
      by auto
    from cl [of st2] obtain evs' where l2: "snd (close drv st2) = snd st2 @ evs'"
      by blast
    have "snd (snd (with_dbmanager drv cfg (execute_query drv sql ps True GET) st)) = snd (close drv st2)"
      using c e
      by (cases res) (simp_all add: with_dbmanager_def dbmanager_enter_def dbmanager_exit_def
                        execute_query_def split: list.splits)
    with l l2 show ?thesis by simp
  next
    case False
    let ?args = "connection_target cfg (db_name (fst st))"
    show ?thesis
    proof (cases "drv_connect drv (snd st) ?args")
      case (Inl e)
      with False show ?thesis
        by (simp add: with_dbmanager_def dbmanager_enter_def connect_def Let_def)
    next
      case (Inr c)
      let ?st1 = "((fst st)\<lparr>conn := Some c\<rparr>, snd st @ [EvConnect ?args])"
      have c: "connect drv cfg st = (Inr (), ?st1)"
        using False Inr by (simp add: connect_def Let_def)
      obtain res st2 where b: "execute_query drv sql ps True GET ?st1 = (res, st2)"
        by (cases "execute_query drv sql ps True GET ?st1")
      have "\<exists>evs. snd st2 = snd ?st1 @ evs"
      proof (cases "is_live drv ?st1")
        case True
        obtain r2 s2 where e: "execute drv GET sql ps ?st1 = (r2, s2)"
          by (cases "execute drv GET sql ps ?st1")
        from ex [OF True, of GET ps] e obtain ev evs where "snd s2 = snd ?st1 @ ev # evs"
          by auto
        moreover have "st2 = s2"
          using b e by (cases r2) (simp_all add: execute_query_def split: list.splits)
        ultimately show ?thesis by blast
      next
        case False
        then have "execute drv GET sql ps ?st1 = (Inl (RuntimeError not_connected_msg), ?st1)"
          by (auto simp: execute_def is_live_def)
        with b show ?thesis
          by (auto simp: execute_query_def)
      qed
      then obtain evs where l: "snd st2 = snd ?st1 @ evs" by blast
      from cl [of st2] obtain evs' where l2: "snd (close drv st2) = snd st2 @ evs'"
        by blast
      have "snd (snd (with_dbmanager drv cfg (execute_query drv sql ps True GET) st)) = snd (close drv st2)"
        using c b by (simp add: with_dbmanager_def dbmanager_enter_def dbmanager_exit_def)
      with l l2 show ?thesis by simp
    qed
  qed
  show ?thesis
  proof (cases "fst rs")
    case None
    let ?st = "(\<lparr>db_name = Some (QUALITY_MYSQL_DB cfg), conn = None\<rparr>, snd rs)"
    obtain res st' where w: "with_dbmanager drv cfg (execute_query drv sql (Some params) True GET) ?st = (res, st')"
      by (cases "with_dbmanager drv cfg (execute_query drv sql (Some params) True GET) ?st")
    have "snd (snd (run_select drv cfg sql params rs)) = snd st'"
      using None w by (cases res) (simp_all add: run_select_def repo_with_db_def)
    with wd [of "Some params" ?st] w show ?thesis by simp
  next
    case (Some db)
    let ?st = "(db, snd rs)"
    obtain res st' where w: "with_dbmanager drv cfg (execute_query drv sql (Some params) True GET) ?st = (res, st')"
      by (cases "with_dbmanager drv cfg (execute_query drv sql (Some params) True GET) ?st")
    have "snd (snd (run_select drv cfg sql params rs)) = snd st'"
      using Some w by (cases res) (simp_all add: run_select_def repo_with_db_def)
    with wd [of "Some params" ?st] w show ?thesis by simp
  qed
qed

text \<open>
  C6. The detail lookup of the repository raises \<open>ValueError\<close> when the type
  or the number is absent or empty, before anything is asked of the database
  (the state, log included, is as before). With both present no argument is
  refused, whatever the year: the call goes to the database with the three key
  parts bound as given. The searches refuse nothing either: with every filter
  absent they go to the database with \<open>NULL\<close> in every filter slot.
\<close>

theorem get_scheda_lavoro_validation:
  "(falsy tipodoc \<longrightarrow>
      QualityRepositoryMYSQL_get_scheda_lavoro drv cfg tipodoc esanno numerodoc rs =
        (Inl (ValueError tipodoc_required_msg), rs))
   \<and> (\<not> falsy tipodoc \<and> falsy numerodoc \<longrightarrow>
      QualityRepositoryMYSQL_get_scheda_lavoro drv cfg tipodoc esanno numerodoc rs =
        (Inl (ValueError numerodoc_required_msg), rs))
   \<and> (\<not> falsy tipodoc \<and> \<not> falsy numerodoc \<longrightarrow>
      QualityRepositoryMYSQL_get_scheda_lavoro drv cfg tipodoc esanno numerodoc rs =
        run_select drv cfg get_scheda_lavoro_sql
          [str_param tipodoc, VInt esanno, str_param numerodoc] rs
      \<and> (\<exists>ev evs. snd (snd (QualityRepositoryMYSQL_get_scheda_lavoro drv cfg tipodoc esanno
                                numerodoc rs)) = snd rs @ ev # evs))
   \<and> QualityRepositoryMYSQL_search_schede_lavoro drv cfg None None None None None None limit offset rs =
       run_select drv cfg search_schede_lavoro_sql (replicate 17 VNone @ [VInt limit, VInt offset]) rs
   \<and> QualityRepositoryMYSQL_search_articoli_per_cliente drv cfg None None None None None limit offset rs =
       run_select drv cfg search_articoli_per_cliente_sql
         (replicate 15 VNone @ [VInt limit, VInt offset]) rs"
proof -
  have n: "norm_text None = None" "norm_upper None = None"
    by (simp_all add: norm_text_def norm_upper_def or_empty_def or_none_def strip_def upper_def)
  have s1: "search_schede_lavoro_params None None None None None None limit offset =
      replicate 17 VNone @ [VInt limit, VInt offset]"
    by (simp add: search_schede_lavoro_params_def n str_param_def int_param_def numeral_eq_Suc)
  have s2: "search_articoli_per_cliente_params None None None None None limit offset =
      replicate 15 VNone @ [VInt limit, VInt offset]"
    by (simp add: search_articoli_per_cliente_params_def n str_param_def int_param_def numeral_eq_Suc)
  show ?thesis
    using run_select_extends_log [of drv cfg get_scheda_lavoro_sql
            "[str_param tipodoc, VInt esanno, str_param numerodoc]" rs]
    by (simp add: QualityRepositoryMYSQL_get_scheda_lavoro_def get_scheda_lavoro_params_def
          QualityRepositoryMYSQL_search_schede_lavoro_def
          QualityRepositoryMYSQL_search_articoli_per_cliente_def s1 s2)
qed

theorem get_scheda_lavoro_validation_witness:
  "falsy (Some [])
   \<and> QualityRepositoryMYSQL_get_scheda_lavoro demo_driver demo_settings (Some []) 2024 (Some ''7'')
       (None, []) = (Inl (ValueError tipodoc_required_msg), (None, []))
   \<and> \<not> falsy (Some ''OC'') \<and> falsy None
   \<and> QualityRepositoryMYSQL_get_scheda_lavoro demo_driver demo_settings (Some ''OC'') 2024 None
       (None, []) = (Inl (ValueError numerodoc_required_msg), (None, []))
   \<and> \<not> falsy (Some ''7'')
   \<and> QualityRepositoryMYSQL_get_scheda_lavoro demo_driver demo_settings (Some ''OC'') 2024
       (Some ''7'') (None, []) =
       (Inr demo_detail_rows,
        (None,
         [EvConnect demo_target, EvCursor 7,
          EvExecute 7 get_scheda_lavoro_sql (Some [VStr ''OC'', VInt 2024, VStr ''7'']) False,
          EvFetchall 7, EvCursorClose 7, EvConnClose 7]))"
proof -
  note inst = get_scheda_lavoro_validation [of _ demo_driver demo_settings 2024 _ "(None, [])"]
  have f: "falsy (Some [])" "\<not> falsy (Some ''OC'')" "falsy None" "\<not> falsy (Some ''7'')"
    by (simp_all add: falsy_def)
  have r1: "QualityRepositoryMYSQL_get_scheda_lavoro demo_driver demo_settings (Some []) 2024 (Some ''7'')
       (None, []) = (Inl (ValueError tipodoc_required_msg), (None, []))"
    using inst [of "Some []" "Some ''7''"] f by blast
  have r2: "QualityRepositoryMYSQL_get_scheda_lavoro demo_driver demo_settings (Some ''OC'') 2024 None
       (None, []) = (Inl (ValueError numerodoc_required_msg), (None, []))"
    using inst [of "Some ''OC''" None] f by blast
  have r3: "QualityRepositoryMYSQL_get_scheda_lavoro demo_driver demo_settings (Some ''OC'') 2024
       (Some ''7'') (None, []) =
     run_select demo_driver demo_settings get_scheda_lavoro_sql
          [str_param (Some ''OC''), VInt 2024, str_param (Some ''7'')] (None, [])"
    using inst [of "Some ''OC''" "Some ''7''"] f by blast
  have run: "run_select demo_driver demo_settings get_scheda_lavoro_sql
          [str_param (Some ''OC''), VInt 2024, str_param (Some ''7'')] (None, []) =
       (Inr demo_detail_rows,
        (None,
         [EvConnect demo_target, EvCursor 7,
          EvExecute 7 get_scheda_lavoro_sql (Some [VStr ''OC'', VInt 2024, VStr ''7'']) False,
          EvFetchall 7, EvCursorClose 7, EvConnClose 7]))"
    by (simp add: run_select_def repo_with_db_def with_dbmanager_def dbmanager_enter_def
          dbmanager_exit_def connect_def close_def is_live_def execute_query_def execute_def
          conn_cursor_def execute_finally_def cursor_close_def
          execute_try_def cursor_execute_def cursor_fetchall_def params_or_none_def
          demo_driver_def rows_or_empty_def demo_detail_rows_def str_param_def
          connection_target_def demo_settings_def demo_target_def str_or_def int_or_def)
  show ?thesis
    using f r1 r2 r3 run by simp
qed

lemma holds_sql_and: "holds (sql_and s t) \<longleftrightarrow> holds s \<and> holds t"
  by (cases s; cases t) (auto simp: holds_def sql_and_def)

lemma holds_sql_conj: "holds (sql_conj ts) \<longleftrightarrow> (\<forall>t \<in> set ts. holds t)"
  by (induction ts) (simp_all add: sql_conj_def holds_sql_and, simp add: holds_def)

lemma holds_sql_not: "holds (sql_not t) \<longleftrightarrow> t = Some False"
  by (cases t) (auto simp: holds_def sql_not_def)

lemma sql_or_False: "sql_or s t = Some False \<longleftrightarrow> s = Some False \<and> t = Some False"
  by (cases s; cases t) (auto simp: sql_or_def)

lemma sql_disj_False: "sql_disj ts = Some False \<longleftrightarrow> (\<forall>t \<in> set ts. t = Some False)"
  by (induction ts) (simp_all add: sql_disj_def sql_or_False)

lemma holds_sql_eq: "holds (sql_eq v w) \<longleftrightarrow> v \<noteq> VNone \<and> v = w"
  by (auto simp: holds_def sql_eq_def)

lemma holds_sql_ne: "holds (sql_ne v w) \<longleftrightarrow> v \<noteq> VNone \<and> w \<noteq> VNone \<and> v \<noteq> w"
  by (auto simp: holds_def sql_ne_def sql_eq_def sql_not_def)

lemma holds_is_not_null: "holds (is_not_null v) \<longleftrightarrow> v \<noteq> VNone"
  by (simp add: holds_def is_not_null_def)

lemma sql_like_False:
  "sql_like v pat = Some False \<longleftrightarrow> v \<noteq> VNone \<and> pat \<noteq> VNone \<and> \<not> like_match (sql_text pat) (sql_text v)"
  by (auto simp: sql_like_def)

lemma like_match_percent: "like_match ''%'' s"
  by (induction s) simp_all

lemma like_match_percents: "like_match ''%%'' s"
  by (induction s) (simp_all add: like_match_percent)

lemma like_match_prefix:
  assumes "\<forall>c \<in> set p. c \<noteq> CHR ''%'' \<and> c \<noteq> CHR ''_''"
  shows "like_match (p @ ''%%'') s \<longleftrightarrow> startswith s p"
  using assms
proof (induction p arbitrary: s)
  case Nil
  then show ?case by (simp add: like_match_percents startswith_def)
next
  case (Cons a p)
  then show ?case by (cases s) (auto simp: startswith_def)
qed

lemma like_match_prefix1:
  assumes "\<forall>c \<in> set p. c \<noteq> CHR ''%'' \<and> c \<noteq> CHR ''_''"
  shows "like_match (p @ ''%'') s \<longleftrightarrow> startswith s p"
  using assms
proof (induction p arbitrary: s)
  case Nil
  then show ?case by (simp add: like_match_percent startswith_def)
next
  case (Cons a p)
  then show ?case by (cases s) (auto simp: startswith_def)
qed

lemma like_match_infix:
  assumes "\<forall>c \<in> set p. c \<noteq> CHR ''%'' \<and> c \<noteq> CHR ''_''"
  shows "like_match (CHR ''%'' # p @ ''%'') s \<longleftrightarrow> contains s p"
proof (induction s)
  case Nil
  show ?case
    using like_match_prefix1 [OF assms, of "[]"] by (auto simp: startswith_def)
next
  case (Cons c s)
  show ?case
    using like_match_prefix1 [OF assms, of "c # s"] Cons by simp
qed

lemma like_CONAI_prefix: "like_match ''CONAI%%'' s \<longleftrightarrow> startswith s ''CONAI''"
  using like_match_prefix [of "''CONAI''" s] by simp

lemma like_BANCALE_prefix: "like_match ''BANCALE%%'' s \<longleftrightarrow> startswith s ''BANCALE''"
  using like_match_prefix [of "''BANCALE''" s] by simp

lemma like_CONAI_infix: "like_match ''%CONAI%'' s \<longleftrightarrow> contains s ''CONAI''"
  using like_match_infix [of "''CONAI''" s] by simp

lemma like_BANCALE_infix: "like_match ''%BANCALE%'' s \<longleftrightarrow> contains s ''BANCALE''"
  using like_match_infix [of "''BANCALE''" s] by simp

lemma sql_text_VStr: "sql_text (VStr s) = s"
  by (simp add: sql_text_def)

lemma sql_text_upper: "v \<noteq> VNone \<Longrightarrow> sql_text (sql_upper v) = upper (sql_text v)"
  by (simp add: sql_upper_def sql_text_def)

lemma sql_upper_None: "sql_upper v = VNone \<longleftrightarrow> v = VNone"
  by (simp add: sql_upper_def)

lemma where_search_articoli_product_line:
  assumes "holds (where_search_articoli p (d, r, a, ma, us))"
  shows "product_line (r ''codicearti'') (r ''descrizion'') (ma ''DESCRIZION'')"
proof -
  from assms have nn: "r ''codicearti'' \<noteq> VNone" and ne: "r ''codicearti'' \<noteq> VStr []"
    and no: "sql_disj [sql_like (sql_upper (r ''codicearti'')) (VStr ''CONAI%%''),
                     sql_like (sql_upper (r ''codicearti'')) (VStr ''BANCALE%%''),
                     sql_like (sql_upper (r ''descrizion'')) (VStr ''%CONAI%''),
                     sql_like (sql_upper (r ''descrizion'')) (VStr ''%BANCALE%''),
                     sql_like (sql_upper (ma ''DESCRIZION'')) (VStr ''%CONAI%''),
                     sql_like (sql_upper (ma ''DESCRIZION'')) (VStr ''%BANCALE%'')] = Some False"
    by (simp_all add: where_search_articoli_def holds_sql_conj holds_sql_not holds_is_not_null
          holds_sql_ne)
  from no have
    "r ''descrizion'' \<noteq> VNone" "ma ''DESCRIZION'' \<noteq> VNone"
    "\<not> like_match ''CONAI%%'' (upper (sql_text (r ''codicearti'')))"
    "\<not> like_match ''BANCALE%%'' (upper (sql_text (r ''codicearti'')))"
    "\<not> like_match ''%CONAI%'' (upper (sql_text (r ''descrizion'')))"
    "\<not> like_match ''%BANCALE%'' (upper (sql_text (r ''descrizion'')))"
    "\<not> like_match ''%CONAI%'' (upper (sql_text (ma ''DESCRIZION'')))"
    "\<not> like_match ''%BANCALE%'' (upper (sql_text (ma ''DESCRIZION'')))"
    by (auto simp: sql_disj_False sql_like_False sql_upper_None sql_text_upper sql_text_VStr)
  with nn ne show ?thesis
    by (simp add: product_line_def PACKAGING_SENTINELS_def like_CONAI_prefix like_BANCALE_prefix
          like_CONAI_infix like_BANCALE_infix)
qed

lemma set_order_asc: "set (order_asc f xs) = set xs"
  by (simp add: order_asc_def)

lemma set_order_desc: "set (order_desc f xs) = set xs"
  by (simp add: order_desc_def)

lemma length_order_asc: "length (order_asc f xs) = length xs"
  by (simp add: order_asc_def)

lemma limit_offset_subset: "limit_offset l off xs = Inr ys \<Longrightarrow> set ys \<subseteq> set xs"
  by (auto simp: limit_offset_def split: val.splits if_splits dest: in_set_takeD in_set_dropD)

lemma search_articoli_rows:
  assumes "search_articoli_per_cliente_query db p = Inr rows" and "rw \<in> set rows"
  shows "\<exists>j \<in> set (lines_from db). holds (where_search_articoli p j) \<and> rw = select_search_articoli j"
proof -
  from assms(1) have "limit_offset (p ! 15) (p ! 16)
          (map select_search_articoli
             (order_desc (\<lambda>(d, r, a, ma, us). d ''datadoc'')
                (order_desc (\<lambda>(d, r, a, ma, us). d ''numerodoc'')
                   (order_asc (\<lambda>(d, r, a, ma, us). r ''numeroriga'')
                      (filter (\<lambda>j. holds (where_search_articoli p j)) (lines_from db)))))) = Inr rows"
    by (simp add: search_articoli_per_cliente_query_def split: if_splits)
  from limit_offset_subset [OF this] assms(2) show ?thesis
    by (auto simp: set_order_asc set_order_desc)
qed

lemma select_search_articoli_columns:
  "dict_get (select_search_articoli (d, r, a, ma, us)) ''r_codicearti'' = r ''codicearti''"
  "dict_get (select_search_articoli (d, r, a, ma, us)) ''r_descrizione_riga'' = r ''descrizion''"
  "dict_get (select_search_articoli (d, r, a, ma, us)) ''r_descrizione_articolo'' = ma ''DESCRIZION''"
  by (simp_all add: select_search_articoli_def dict_get_def)

lemma select_search_articoli_distinct: "distinct (map fst (select_search_articoli j))"
  by (cases j) (simp add: select_search_articoli_def)

lemma make_item_columns:
  "dict_get (make_item h r) ''codicearti'' = dict_get r ''codicearti''"
  "dict_get (make_item h r) ''descrizione_riga'' = dict_get r ''descrizione_riga''"
  "dict_get (make_item h r) ''descrizione_articolo'' = dict_get r ''descrizione_articolo''"
  by (simp_all add: make_item_def dict_get_def)

text \<open>
  C3. Let the repository return what the line-search template means on a
  database, with the parameters the repository binds for the filters given.
  Then every raw row, and every item the service makes of one, is a product
  line: its item code is present and not empty and does not start with
  \<open>CONAI\<close> or \<open>BANCALE\<close>, and neither its line description nor its
  item-master description contains one of them, whatever the letter case.
\<close>

theorem search_articoli_excludes_sentinels:
  assumes "search_articoli_per_cliente_query db
             (search_articoli_per_cliente_params tipodoc year codicecf cliente_search
                articolo_search limit offset) = Inr raw_rows"
      and "repo_search_articoli_per_cliente repo tipodoc year codicecf cliente_search
             articolo_search limit offset s = (Inr raw_rows, s')"
  shows "(\<forall>rw \<in> set raw_rows.
            product_line (dict_get rw ''r_codicearti'') (dict_get rw ''r_descrizione_riga'')
              (dict_get rw ''r_descrizione_articolo''))
       \<and> (\<exists>items. QualityService_search_articoli_per_cliente repo tipodoc year codicecf
                      cliente_search articolo_search limit offset s = (Inr items, s')
              \<and> (\<forall>item \<in> set items.
                    product_line (dict_get item ''codicearti'') (dict_get item ''descrizione_riga'')
                      (dict_get item ''descrizione_articolo'')))"
proof -
  let ?p = "search_articoli_per_cliente_params tipodoc year codicecf cliente_search
                articolo_search limit offset"
  have raw: "product_line (dict_get rw ''r_codicearti'') (dict_get rw ''r_descrizione_riga'')
              (dict_get rw ''r_descrizione_articolo'') \<and> distinct (map fst rw)"
    if "rw \<in> set raw_rows" for rw
  proof -
    from search_articoli_rows [OF assms(1) that] obtain d r a ma us where
      w: "holds (where_search_articoli ?p (d, r, a, ma, us))"
      and rw: "rw = select_search_articoli (d, r, a, ma, us)"
      by auto
    from where_search_articoli_product_line [OF w] show ?thesis
      by (simp add: rw select_search_articoli_columns select_search_articoli_distinct)
  qed
  let ?items = "map (\<lambda>r. make_item (extract_header r) (extract_row r))
                  (filter (\<lambda>r. type_code_ok (extract_header r)) raw_rows)"
  have svc: "QualityService_search_articoli_per_cliente repo tipodoc year codicecf
                      cliente_search articolo_search limit offset s = (Inr ?items, s')"
    using assms(2)
    by (simp add: QualityService_search_articoli_per_cliente_def articoli_loop_eq not_rejected_iff)
  have items: "\<forall>item \<in> set ?items.
                    product_line (dict_get item ''codicearti'') (dict_get item ''descrizione_riga'')
                      (dict_get item ''descrizione_articolo'')"
  proof
    fix item
    assume "item \<in> set ?items"
    then obtain rw where m: "rw \<in> set raw_rows"
      and it: "item = make_item (extract_header rw) (extract_row rw)"
      by auto
    from raw [OF m] show "product_line (dict_get item ''codicearti'')
        (dict_get item ''descrizione_riga'') (dict_get item ''descrizione_articolo'')"
      by (simp add: it make_item_columns dict_get_extract_row)
  qed
  show ?thesis
  proof (intro conjI)
    show "\<forall>rw \<in> set raw_rows.
            product_line (dict_get rw ''r_codicearti'') (dict_get rw ''r_descrizione_riga'')
              (dict_get rw ''r_descrizione_articolo'')"
      using raw by blast
    show "\<exists>items. QualityService_search_articoli_per_cliente repo tipodoc year codicecf
                      cliente_search articolo_search limit offset s = (Inr items, s')
              \<and> (\<forall>item \<in> set items.
                    product_line (dict_get item ''codicearti'') (dict_get item ''descrizione_riga'')
                      (dict_get item ''descrizione_articolo''))"
      by (rule exI [of _ ?items], intro conjI) (fact svc items)+
  qed
qed

lemma demo_header_columns:
  "demo_header ''tipodoc'' = VStr ''OC''" "demo_header ''esanno'' = VInt 2024"
  "demo_header ''numerodoc'' = VStr ''7''" "demo_header ''codicecf'' = VStr ''C001''"
  "demo_header ''datadoc'' = VStr ''2024-03-01''"
  by (simp_all add: demo_header_def table_row_def)

lemma demo_line_columns:
  "demo_line n code descr ''tipodoc'' = VStr ''OC''" "demo_line n code descr ''esanno'' = VInt 2024"
  "demo_line n code descr ''numerodoc'' = VStr ''7''" "demo_line n code descr ''numeroriga'' = VInt n"
  "demo_line n code descr ''codicearti'' = VStr code" "demo_line n code descr ''descrizion'' = VStr descr"
  "demo_line n code descr ''id'' = VInt n"
  by (simp_all add: demo_line_def table_row_def)

lemma demo_customer_columns:
  "demo_customer ''CODICE'' = VStr ''C001''" "demo_customer ''DESCRIZION'' = VStr ''Rossi Spa''"
  "demo_customer ''SUPRAGSOC'' = VNone"
  by (simp_all add: demo_customer_def table_row_def)

lemma demo_item_columns:
  "demo_item code descr ''CODICE'' = VStr code" "demo_item code descr ''DESCRIZION'' = VStr descr"
  by (simp_all add: demo_item_def table_row_def)

lemma demo_lines_from:
  "lines_from demo_database =
     [(demo_header, demo_line 3 ''conai01'' ''Contributo'', demo_customer,
       demo_item ''conai01'' ''Contributo'', null_row),
      (demo_header, demo_line 2 [] ''Nota di consegna'', demo_customer, null_row, null_row),
      (demo_header, demo_line 4 ''P1'' ''Bancale EPAL'', demo_customer, demo_item ''P1'' ''Pallet'',
       null_row),
      (demo_header, demo_line 1 ''ART1'' ''Film estensibile'', demo_customer,
       demo_item ''ART1'' ''Film'', null_row)]"
  by (simp add: lines_from_def demo_database_def left_join_def same_document_def sql_conj_def
        sql_and_def sql_eq_def holds_def demo_header_columns demo_line_columns
        demo_customer_columns demo_item_columns)

lemma demo_search_params:
  "search_articoli_per_cliente_params None None (Some ''C001'') None None 50 0 =
     [VNone, VNone, VNone, VNone, VStr ''C001'', VStr ''C001'', VNone, VNone, VNone,
      VNone, VNone, VNone, VNone, VNone, VNone, VInt 50, VInt 0]"
  by (simp add: search_articoli_per_cliente_params_def norm_text_def norm_upper_def or_empty_def
        or_none_def strip_def isspace_def upper_def str_param_def int_param_def Let_def)

lemma null_row_column: "null_row c = VNone"
  by (simp add: null_row_def)

lemma holds_sql_or: "holds (sql_or s t) \<longleftrightarrow> holds s \<or> holds t"
  by (cases s; cases t) (auto simp: holds_def sql_or_def)

lemma holds_sql_disj: "holds (sql_disj ts) \<longleftrightarrow> (\<exists>t \<in> set ts. holds t)"
  by (induction ts) (simp_all add: sql_disj_def holds_sql_or, simp add: holds_def)

lemma holds_is_null: "holds (is_null v) \<longleftrightarrow> v = VNone"
  by (simp add: holds_def is_null_def)

lemma holds_sql_in: "holds (sql_in v ws) \<longleftrightarrow> v \<noteq> VNone \<and> v \<in> set ws"
  by (simp add: holds_def sql_in_def)

lemmas holds_simps =
  holds_sql_conj holds_sql_or holds_sql_disj holds_is_null holds_sql_in holds_sql_not
  holds_sql_eq holds_sql_ne holds_is_not_null sql_disj_False sql_like_False sql_upper_None
  sql_text_upper sql_text_VStr like_CONAI_prefix like_BANCALE_prefix like_CONAI_infix
  like_BANCALE_infix

lemma demo_uppers:
  "upper ''conai01'' = ''CONAI01''" "upper ''Bancale EPAL'' = ''BANCALE EPAL''"
  "upper ''ART1'' = ''ART1''" "upper ''P1'' = ''P1''" "upper ''Film'' = ''FILM''"
  "upper ''Film estensibile'' = ''FILM ESTENSIBILE''" "upper ''Contributo'' = ''CONTRIBUTO''"
  "upper ''Pallet'' = ''PALLET''" "upper ''Nota di consegna'' = ''NOTA DI CONSEGNA''"
  "upper [] = []"
  by (simp_all add: upper_def upper_char_def)

lemma demo_where_line1:
  "holds (where_search_articoli
            [VNone, VNone, VNone, VNone, VStr ''C001'', VStr ''C001'', VNone, VNone, VNone,
             VNone, VNone, VNone, VNone, VNone, VNone, VInt 50, VInt 0]
            (demo_header, demo_line 1 ''ART1'' ''Film estensibile'', demo_customer,
             demo_item ''ART1'' ''Film'', null_row))"
  by (simp add: where_search_articoli_def holds_simps TIPI_DOC_LAVORO_def demo_uppers
        startswith_def demo_header_columns demo_line_columns demo_item_columns)

lemma demo_where_line3:
  "\<not> holds (where_search_articoli p
            (demo_header, demo_line 3 ''conai01'' ''Contributo'', demo_customer,
             demo_item ''conai01'' ''Contributo'', null_row))"
  using where_search_articoli_product_line
          [of p demo_header "demo_line 3 ''conai01'' ''Contributo''" demo_customer
             "demo_item ''conai01'' ''Contributo''" null_row]
  by (auto simp: product_line_def PACKAGING_SENTINELS_def demo_line_columns sql_text_VStr
        demo_uppers startswith_def)

lemma demo_where_line2:
  "\<not> holds (where_search_articoli p
            (demo_header, demo_line 2 [] ''Nota di consegna'', demo_customer, null_row, null_row))"
  using where_search_articoli_product_line
          [of p demo_header "demo_line 2 [] ''Nota di consegna''" demo_customer null_row null_row]
  by (auto simp: product_line_def demo_line_columns)

lemma demo_where_line4:
  "\<not> holds (where_search_articoli p
            (demo_header, demo_line 4 ''P1'' ''Bancale EPAL'', demo_customer,
             demo_item ''P1'' ''Pallet'', null_row))"
  using where_search_articoli_product_line
          [of p demo_header "demo_line 4 ''P1'' ''Bancale EPAL''" demo_customer
             "demo_item ''P1'' ''Pallet''" null_row]
  by (auto simp: product_line_def PACKAGING_SENTINELS_def demo_line_columns sql_text_VStr
        demo_uppers startswith_def)

lemma demo_where_search:
  "filter (\<lambda>j. holds (where_search_articoli
                        [VNone, VNone, VNone, VNone, VStr ''C001'', VStr ''C001'', VNone, VNone, VNone,
                         VNone, VNone, VNone, VNone, VNone, VNone, VInt 50, VInt 0] j))
     (lines_from demo_database) =
     [(demo_header, demo_line 1 ''ART1'' ''Film estensibile'', demo_customer,
       demo_item ''ART1'' ''Film'', null_row)]"
  unfolding demo_lines_from
  by (simp add: demo_where_line1 demo_where_line2 demo_where_line3 demo_where_line4)

lemma demo_search_query:
  "search_articoli_per_cliente_query demo_database
     (search_articoli_per_cliente_params None None (Some ''C001'') None None 50 0) =
     Inr [select_search_articoli
            (demo_header, demo_line 1 ''ART1'' ''Film estensibile'', demo_customer,
             demo_item ''ART1'' ''Film'', null_row)]"
  unfolding demo_search_params search_articoli_per_cliente_query_def demo_where_search
  by (simp add: order_asc_def order_desc_def limit_offset_def)

theorem search_articoli_excludes_sentinels_witness:
  "search_articoli_per_cliente_query demo_database
     (search_articoli_per_cliente_params None None (Some ''C001'') None None 50 0) =
     Inr [select_search_articoli
            (demo_header, demo_line 1 ''ART1'' ''Film estensibile'', demo_customer,
             demo_item ''ART1'' ''Film'', null_row)]
   \<and> repo_search_articoli_per_cliente demo_sql_repo None None (Some ''C001'') None None 50 0 0 =
       (Inr [select_search_articoli
            (demo_header, demo_line 1 ''ART1'' ''Film estensibile'', demo_customer,
             demo_item ''ART1'' ''Film'', null_row)], 0)
   \<and> product_line (VStr ''ART1'') (VStr ''Film estensibile'') (VStr ''Film'')
   \<and> \<not> product_line (VStr ''conai01'') (VStr ''Contributo'') (VStr ''Contributo'')
   \<and> \<not> product_line (VStr ''P1'') (VStr ''Bancale EPAL'') (VStr ''Pallet'')
   \<and> \<not> product_line (VStr []) (VStr ''Nota di consegna'') VNone"
proof -
  let ?rw = "select_search_articoli
            (demo_header, demo_line 1 ''ART1'' ''Film estensibile'', demo_customer,
             demo_item ''ART1'' ''Film'', null_row)"
  have h2: "repo_search_articoli_per_cliente demo_sql_repo None None (Some ''C001'') None None 50 0 0 =
       (Inr [?rw], 0)"
    by (simp add: demo_sql_repo_def demo_search_query)
  from search_articoli_excludes_sentinels [OF demo_search_query h2]
  have "product_line (dict_get ?rw ''r_codicearti'') (dict_get ?rw ''r_descrizione_riga'')
              (dict_get ?rw ''r_descrizione_articolo'')"
    by simp
  then have p1: "product_line (VStr ''ART1'') (VStr ''Film estensibile'') (VStr ''Film'')"
    by (simp add: select_search_articoli_columns demo_line_columns demo_item_columns)
  have p2: "\<not> product_line (VStr ''conai01'') (VStr ''Contributo'') (VStr ''Contributo'')"
    by (simp add: product_line_def PACKAGING_SENTINELS_def sql_text_def demo_uppers startswith_def)
  have p3: "\<not> product_line (VStr ''P1'') (VStr ''Bancale EPAL'') (VStr ''Pallet'')"
    by (simp add: product_line_def PACKAGING_SENTINELS_def sql_text_def demo_uppers startswith_def)
  have p4: "\<not> product_line (VStr []) (VStr ''Nota di consegna'') VNone"
    by (simp add: product_line_def)
  from demo_search_query h2 p1 p2 p3 p4 show ?thesis
    by (intro conjI)
qed

lemma lines_from_iff:
  "(d, r, a, ma, us) \<in> set (lines_from db) \<longleftrightarrow>
     d \<in> set (doctes db) \<and> r \<in> set (docrig db) \<and> holds (same_document d r)
     \<and> a \<in> set (left_join (anagrafe db) (\<lambda>a. sql_eq (a ''CODICE'') (d ''codicecf'')))
     \<and> ma \<in> set (left_join (magart db) (\<lambda>ma. sql_eq (ma ''CODICE'') (r ''codicearti'')))
     \<and> us \<in> set (left_join (u_scimp db) (\<lambda>us. sql_eq (us ''id_rigadoc'') (r ''id'')))"
proof
  show "(d, r, a, ma, us) \<in> set (lines_from db) \<Longrightarrow>
     d \<in> set (doctes db) \<and> r \<in> set (docrig db) \<and> holds (same_document d r)
     \<and> a \<in> set (left_join (anagrafe db) (\<lambda>a. sql_eq (a ''CODICE'') (d ''codicecf'')))
     \<and> ma \<in> set (left_join (magart db) (\<lambda>ma. sql_eq (ma ''CODICE'') (r ''codicearti'')))
     \<and> us \<in> set (left_join (u_scimp db) (\<lambda>us. sql_eq (us ''id_rigadoc'') (r ''id'')))"
    by (auto simp: lines_from_def)
next
  assume h: "d \<in> set (doctes db) \<and> r \<in> set (docrig db) \<and> holds (same_document d r)
     \<and> a \<in> set (left_join (anagrafe db) (\<lambda>a. sql_eq (a ''CODICE'') (d ''codicecf'')))
     \<and> ma \<in> set (left_join (magart db) (\<lambda>ma. sql_eq (ma ''CODICE'') (r ''codicearti'')))
     \<and> us \<in> set (left_join (u_scimp db) (\<lambda>us. sql_eq (us ''id_rigadoc'') (r ''id'')))"
  then show "(d, r, a, ma, us) \<in> set (lines_from db)"
    unfolding lines_from_def
    by (simp add: image_iff)
qed

lemma left_join_nonempty: "\<exists>x. x \<in> set (left_join t c)"
  by (cases "filter (\<lambda>x. holds (c x)) t") (auto simp: left_join_def Let_def)

lemma holds_where_get_scheda_lavoro:
  "holds (where_get_scheda_lavoro p1 p2 p3 (d, r, a, ma, us)) \<longleftrightarrow>
     holds (sql_eq (d ''tipodoc'') p1) \<and> holds (sql_eq (d ''esanno'') p2)
     \<and> holds (sql_eq (d ''numerodoc'') p3)
     \<and> r ''codicearti'' \<noteq> VNone \<and> r ''codicearti'' \<noteq> VStr []"
  by (auto simp: where_get_scheda_lavoro_def holds_sql_conj holds_is_not_null holds_sql_ne)

lemma select_get_scheda_lavoro_numeroriga:
  "dict_get (select_get_scheda_lavoro (d, r, a, ma, us)) ''r_numeroriga'' = r ''numeroriga''"
  by (simp add: select_get_scheda_lavoro_def dict_get_def)

lemma sorted_order_asc: "sorted (map (\<lambda>x. order_key (f x)) (order_asc f xs))"
  by (simp add: order_asc_def)

lemma get_scheda_lavoro_query_eq:
  "get_scheda_lavoro_query db [p1, p2, p3] =
     Inr (map select_get_scheda_lavoro
            (order_asc (\<lambda>(d, r, a, ma, us). r ''numeroriga'')
               (filter (\<lambda>j. holds (where_get_scheda_lavoro p1 p2 p3 j)) (lines_from db))))"
  by (simp add: get_scheda_lavoro_query_def)

lemma select_get_scheda_lavoro_key:
  "dict_get (select_get_scheda_lavoro j) ''r_numeroriga'' = (case j of (d, r, a, ma, us) \<Rightarrow> r ''numeroriga'')"
  by (cases j) (simp add: select_get_scheda_lavoro_numeroriga)

lemma str_param_eq_iff:
  "holds (sql_eq v (str_param x)) \<longleftrightarrow> v = str_param x \<and> x \<noteq> None"
  by (cases x) (auto simp: holds_sql_eq str_param_def)

text \<open>
  C2, as the code has it. The detail query, with the key the repository binds,
  returns one row for each joined line of the document whose item code is
  present and not empty: every row is the select list over a header with the
  requested key and one of its lines with an item code; every such line of
  such a header is in the result; the rows are in ascending order of line
  number; and their number is the number of joined lines that qualify, none
  being cut off by a limit.
\<close>

theorem get_scheda_lavoro_query_lines:
  "\<exists>rows. get_scheda_lavoro_query db (get_scheda_lavoro_params tipodoc esanno numerodoc) = Inr rows
     \<and> (\<forall>rw \<in> set rows. \<exists>d r a ma us.
            (d, r, a, ma, us) \<in> set (lines_from db)
          \<and> rw = select_get_scheda_lavoro (d, r, a, ma, us)
          \<and> d ''tipodoc'' = str_param tipodoc \<and> d ''esanno'' = VInt esanno
          \<and> d ''numerodoc'' = str_param numerodoc
          \<and> r ''codicearti'' \<noteq> VNone \<and> r ''codicearti'' \<noteq> VStr [])
     \<and> (\<forall>d \<in> set (doctes db). \<forall>r \<in> set (docrig db).
            tipodoc \<noteq> None \<and> numerodoc \<noteq> None
          \<and> d ''tipodoc'' = str_param tipodoc \<and> d ''esanno'' = VInt esanno
          \<and> d ''numerodoc'' = str_param numerodoc
          \<and> holds (same_document d r)
          \<and> r ''codicearti'' \<noteq> VNone \<and> r ''codicearti'' \<noteq> VStr []
          \<longrightarrow> (\<exists>a ma us. select_get_scheda_lavoro (d, r, a, ma, us) \<in> set rows))
     \<and> sorted (map order_key (line_numbers rows))
     \<and> length rows =
         length (filter (\<lambda>j. holds (where_get_scheda_lavoro (str_param tipodoc) (VInt esanno)
                                      (str_param numerodoc) j)) (lines_from db))"
proof -
  let ?p1 = "str_param tipodoc" and ?p2 = "VInt esanno" and ?p3 = "str_param numerodoc"
  let ?W = "\<lambda>j. holds (where_get_scheda_lavoro ?p1 ?p2 ?p3 j)"
  let ?sorted = "order_asc (\<lambda>(d, r, a, ma, us). r ''numeroriga'') (filter ?W (lines_from db))"
  let ?rows = "map select_get_scheda_lavoro ?sorted"
  have q: "get_scheda_lavoro_query db (get_scheda_lavoro_params tipodoc esanno numerodoc) = Inr ?rows"
    by (simp add: get_scheda_lavoro_params_def get_scheda_lavoro_query_eq)
  have sound: "\<forall>rw \<in> set ?rows. \<exists>d r a ma us.
            (d, r, a, ma, us) \<in> set (lines_from db)
          \<and> rw = select_get_scheda_lavoro (d, r, a, ma, us)
          \<and> d ''tipodoc'' = ?p1 \<and> d ''esanno'' = ?p2 \<and> d ''numerodoc'' = ?p3
          \<and> r ''codicearti'' \<noteq> VNone \<and> r ''codicearti'' \<noteq> VStr []"
  proof
    fix rw
    assume "rw \<in> set ?rows"
    then obtain j where j: "j \<in> set (lines_from db)" "?W j" "rw = select_get_scheda_lavoro j"
      by (auto simp: set_order_asc)
    obtain d r a ma us where t: "j = (d, r, a, ma, us)"
      by (cases j)
    from j(2) have "d ''tipodoc'' = ?p1 \<and> d ''esanno'' = ?p2 \<and> d ''numerodoc'' = ?p3
          \<and> r ''codicearti'' \<noteq> VNone \<and> r ''codicearti'' \<noteq> VStr []"
      unfolding t holds_where_get_scheda_lavoro by (auto simp: holds_sql_eq)
    with j t show "\<exists>d r a ma us.
            (d, r, a, ma, us) \<in> set (lines_from db)
          \<and> rw = select_get_scheda_lavoro (d, r, a, ma, us)
          \<and> d ''tipodoc'' = ?p1 \<and> d ''esanno'' = ?p2 \<and> d ''numerodoc'' = ?p3
          \<and> r ''codicearti'' \<noteq> VNone \<and> r ''codicearti'' \<noteq> VStr []"
      by blast
  qed
  have complete: "\<forall>d \<in> set (doctes db). \<forall>r \<in> set (docrig db).
            tipodoc \<noteq> None \<and> numerodoc \<noteq> None
          \<and> d ''tipodoc'' = ?p1 \<and> d ''esanno'' = ?p2 \<and> d ''numerodoc'' = ?p3
          \<and> holds (same_document d r)
          \<and> r ''codicearti'' \<noteq> VNone \<and> r ''codicearti'' \<noteq> VStr []
          \<longrightarrow> (\<exists>a ma us. select_get_scheda_lavoro (d, r, a, ma, us) \<in> set ?rows)"
  proof (intro ballI impI)
    fix d r
    assume d: "d \<in> set (doctes db)" and r: "r \<in> set (docrig db)"
      and h: "tipodoc \<noteq> None \<and> numerodoc \<noteq> None
          \<and> d ''tipodoc'' = ?p1 \<and> d ''esanno'' = ?p2 \<and> d ''numerodoc'' = ?p3
          \<and> holds (same_document d r)
          \<and> r ''codicearti'' \<noteq> VNone \<and> r ''codicearti'' \<noteq> VStr []"
    obtain a where a: "a \<in> set (left_join (anagrafe db) (\<lambda>a. sql_eq (a ''CODICE'') (d ''codicecf'')))"
      using left_join_nonempty by blast
    obtain ma where ma: "ma \<in> set (left_join (magart db) (\<lambda>ma. sql_eq (ma ''CODICE'') (r ''codicearti'')))"
      using left_join_nonempty by blast
    obtain us where us: "us \<in> set (left_join (u_scimp db) (\<lambda>us. sql_eq (us ''id_rigadoc'') (r ''id'')))"
      using left_join_nonempty by blast
    have mem: "(d, r, a, ma, us) \<in> set (lines_from db)"
      using d r h a ma us by (simp add: lines_from_iff)
    have w: "?W (d, r, a, ma, us)"
      using h by (auto simp: holds_where_get_scheda_lavoro holds_sql_eq str_param_def)
    from mem w have "select_get_scheda_lavoro (d, r, a, ma, us) \<in> set ?rows"
      by (simp add: set_order_asc)
    then show "\<exists>a ma us. select_get_scheda_lavoro (d, r, a, ma, us) \<in> set ?rows"
      by blast
  qed
  have srt: "sorted (map order_key (line_numbers ?rows))"
    using sorted_order_asc [of "\<lambda>(d, r, a, ma, us). r ''numeroriga''" "filter ?W (lines_from db)"]
    by (simp add: line_numbers_def comp_def select_get_scheda_lavoro_key split_def)
  have len: "length ?rows = length (filter ?W (lines_from db))"
    by (simp add: length_order_asc)
  show ?thesis
    by (rule exI [of _ ?rows], intro conjI) (fact q sound complete srt len)+
qed

lemma demo_detail_where:
  "filter (\<lambda>j. holds (where_get_scheda_lavoro (VStr ''OC'') (VInt 2024) (VStr ''7'') j))
     (lines_from demo_database) =
     [(demo_header, demo_line 3 ''conai01'' ''Contributo'', demo_customer,
       demo_item ''conai01'' ''Contributo'', null_row),
      (demo_header, demo_line 4 ''P1'' ''Bancale EPAL'', demo_customer, demo_item ''P1'' ''Pallet'',
       null_row),
      (demo_header, demo_line 1 ''ART1'' ''Film estensibile'', demo_customer,
       demo_item ''ART1'' ''Film'', null_row)]"
  unfolding demo_lines_from
  by (simp add: holds_where_get_scheda_lavoro holds_sql_eq demo_header_columns demo_line_columns)

lemma demo_detail_query:
  "get_scheda_lavoro_query demo_database (get_scheda_lavoro_params (Some ''OC'') 2024 (Some ''7'')) =
     Inr [select_get_scheda_lavoro
            (demo_header, demo_line 1 ''ART1'' ''Film estensibile'', demo_customer,
             demo_item ''ART1'' ''Film'', null_row),
          select_get_scheda_lavoro
            (demo_header, demo_line 3 ''conai01'' ''Contributo'', demo_customer,
             demo_item ''conai01'' ''Contributo'', null_row),
          select_get_scheda_lavoro
            (demo_header, demo_line 4 ''P1'' ''Bancale EPAL'', demo_customer,
             demo_item ''P1'' ''Pallet'', null_row)]"
  unfolding get_scheda_lavoro_params_def str_param_def option.case get_scheda_lavoro_query_eq
    demo_detail_where
  by (simp add: order_asc_def order_key_def demo_line_columns)

lemma demo_detail_line_numbers:
  "line_numbers
     [select_get_scheda_lavoro
        (demo_header, demo_line 1 ''ART1'' ''Film estensibile'', demo_customer,
         demo_item ''ART1'' ''Film'', null_row),
      select_get_scheda_lavoro
        (demo_header, demo_line 3 ''conai01'' ''Contributo'', demo_customer,
         demo_item ''conai01'' ''Contributo'', null_row),
      select_get_scheda_lavoro
        (demo_header, demo_line 4 ''P1'' ''Bancale EPAL'', demo_customer,
         demo_item ''P1'' ''Pallet'', null_row)] = [VInt 1, VInt 3, VInt 4]"
  by (simp add: line_numbers_def select_get_scheda_lavoro_numeroriga demo_line_columns)

theorem get_scheda_lavoro_query_lines_witness:
  "demo_header \<in> set (doctes demo_database)
   \<and> demo_line 3 ''conai01'' ''Contributo'' \<in> set (docrig demo_database)
   \<and> holds (same_document demo_header (demo_line 3 ''conai01'' ''Contributo''))
   \<and> demo_header ''tipodoc'' = str_param (Some ''OC'') \<and> demo_header ''esanno'' = VInt 2024
   \<and> demo_header ''numerodoc'' = str_param (Some ''7'')
   \<and> demo_line 3 ''conai01'' ''Contributo'' ''codicearti'' = VStr ''conai01''
   \<and> line_numbers (projr (get_scheda_lavoro_query demo_database
                             (get_scheda_lavoro_params (Some ''OC'') 2024 (Some ''7''))))
       = [VInt 1, VInt 3, VInt 4]
   \<and> sorted (map order_key [VInt 1, VInt 3, VInt 4])"
proof -
  from get_scheda_lavoro_query_lines [of demo_database "Some ''OC''" 2024 "Some ''7''"]
  obtain rows where
    q: "get_scheda_lavoro_query demo_database (get_scheda_lavoro_params (Some ''OC'') 2024 (Some ''7''))
          = Inr rows"
    and s: "sorted (map order_key (line_numbers rows))"
    by blast
  from q have ln: "line_numbers rows = [VInt 1, VInt 3, VInt 4]"
    unfolding demo_detail_query using demo_detail_line_numbers by simp
  have same: "holds (same_document demo_header (demo_line 3 ''conai01'' ''Contributo''))"
    by (simp add: same_document_def holds_sql_conj holds_sql_eq demo_header_columns demo_line_columns)
  show ?thesis
    using s q same unfolding ln
    by (simp add: ln demo_database_def demo_header_columns demo_line_columns str_param_def)
qed

text \<open>
  C2, as claimed, fails: line 2 of order \<open>OC/2024/7\<close> belongs to the document
  and has no item code, and the detail query leaves it out.
\<close>

theorem get_scheda_lavoro_omits_line_counterexample:
  "demo_header \<in> set (doctes demo_database)
   \<and> demo_header ''tipodoc'' = VStr ''OC'' \<and> demo_header ''esanno'' = VInt 2024
   \<and> demo_header ''numerodoc'' = VStr ''7''
   \<and> demo_line 2 [] ''Nota di consegna'' \<in> set (docrig demo_database)
   \<and> holds (same_document demo_header (demo_line 2 [] ''Nota di consegna''))
   \<and> demo_line 2 [] ''Nota di consegna'' ''numeroriga'' = VInt 2
   \<and> get_scheda_lavoro_params (Some ''OC'') 2024 (Some ''7'') = [VStr ''OC'', VInt 2024, VStr ''7'']
   \<and> line_numbers (projr (get_scheda_lavoro_query demo_database
                             (get_scheda_lavoro_params (Some ''OC'') 2024 (Some ''7''))))
       = [VInt 1, VInt 3, VInt 4]
   \<and> VInt 2 \<notin> set (line_numbers (projr (get_scheda_lavoro_query demo_database
                             (get_scheda_lavoro_params (Some ''OC'') 2024 (Some ''7'')))))
   \<and> \<not> returns_every_line demo_database (Some ''OC'') 2024 (Some ''7'')"
proof -
  have same: "holds (same_document demo_header (demo_line 2 [] ''Nota di consegna''))"
    by (simp add: same_document_def holds_sql_conj holds_sql_eq demo_header_columns demo_line_columns)
  have ln: "line_numbers (projr (get_scheda_lavoro_query demo_database
                             (get_scheda_lavoro_params (Some ''OC'') 2024 (Some ''7''))))
       = [VInt 1, VInt 3, VInt 4]"
    unfolding demo_detail_query using demo_detail_line_numbers by simp
  have hd: "demo_header \<in> set (doctes demo_database)"
    and l2: "demo_line 2 [] ''Nota di consegna'' \<in> set (docrig demo_database)"
    by (simp_all add: demo_database_def)
  have key: "demo_header ''tipodoc'' = str_param (Some ''OC'') \<and> demo_header ''esanno'' = VInt 2024
        \<and> demo_header ''numerodoc'' = str_param (Some ''7'')"
    by (simp add: demo_header_columns str_param_def)
  have no: "demo_line 2 [] ''Nota di consegna'' ''numeroriga''
      \<notin> set (line_numbers (projr (get_scheda_lavoro_query demo_database
                             (get_scheda_lavoro_params (Some ''OC'') 2024 (Some ''7'')))))"
    unfolding ln by (simp add: demo_line_columns)
  have neg: "\<not> returns_every_line demo_database (Some ''OC'') 2024 (Some ''7'')"
    unfolding returns_every_line_def using hd l2 key same no by blast
  show ?thesis
    using same neg hd l2 unfolding ln
    by (simp add: demo_header_columns demo_line_columns
          get_scheda_lavoro_params_def str_param_def)
qed

end
